theory Spec2Isabelle
  imports Complex_Main "HOL-Library.Char_ord" "HOL-Library.List_Lexorder"
begin

section \<open>Data model (db/schema)\<close>

text \<open>
  The tables of the schema as records, with the columns that the modelled code reads or
  writes; the tag enumerations and the four status values as datatypes. Timestamps are
  integers (the schema stores them in \<open>timestamp\<close> mode, that is as epoch seconds).
  Nullable columns are options. JSON columns are modelled by their decoded value. The
  week-plan table is the one of the second migration, which index.ts reads and writes:
  its recipe id is nullable and it has the \<open>cleared\<close> flag.
\<close>

datatype Season = lente | zomer | herfst | winter

datatype WeatherTag = koud | warm | regenachtig | zonnig

datatype Status = Pending | Accepted | Rejected | Cleared

record WeatherSnapshot =
  temp :: int
  feelsLike :: int
  condition :: string
  description :: string
  humidity :: int
  windSpeed :: int
  icon :: string

record Ingredient =
  ing_name :: string
  ing_amount :: "rat option"
  ing_unit :: "string option"
  scalable :: bool

record Recipe =
  recipe_id :: nat
  recipe_name :: string
  recipe_category :: string
  recipe_ingredients :: "Ingredient list"
  defaultServings :: "nat option"
  recipe_seasons :: "Season list option"
  recipe_weatherTags :: "WeatherTag list option"

record MealHistoryEntry =
  mh_id :: nat
  mh_recipeId :: nat
  eatenAt :: int
  mh_createdAt :: int

text \<open>The \<open>reason\<close> column holds either a score breakdown or the marker of a manual pick.\<close>

datatype Reason = Breakdown int int int | Manual

record Suggestion =
  sug_id :: nat
  sug_recipeId :: nat
  suggestedFor :: string
  status :: Status
  reason :: Reason
  weatherData :: WeatherSnapshot
  sug_createdAt :: int

record WeekPlanEntry =
  wp_id :: nat
  wp_date :: string
  wp_recipeId :: "nat option"
  wp_cleared :: bool
  wp_temp :: "int option"
  wp_icon :: "string option"
  wp_description :: "string option"
  wp_createdAt :: int

text \<open>
  The database: every table as the list of its rows in rowid order, with the
  AUTOINCREMENT counters of the tables the code inserts into.
\<close>

record DB =
  recipes :: "Recipe list"
  mealHistory :: "MealHistoryEntry list"
  suggestions :: "Suggestion list"
  weekPlan :: "WeekPlanEntry list"
  seq_mealHistory :: nat
  seq_suggestions :: nat
  seq_weekPlan :: nat

text \<open>
  The errors the modelled code can raise: the two \<open>throw\<close>s of services/suggestion,
  a failed fetch of the weather provider, a property read on \<open>undefined\<close>, and the
  error responses of the request handlers.
\<close>

datatype error =
    NoRecipesInDatabase
  | SuggestionNotFound
  | WeatherApiError
  | TypeError
  | RecipeIdRequired
  | RecipeNotFound

section \<open>Strings\<close>

text \<open>
  Strings are sequences of 8-bit code units (the Latin-1 range of the code's UTF-16
  strings). \<open>toLowerCase\<close> maps A..Z and the upper-case letters of Latin-1 to their
  lower-case forms.
\<close>

definition toLowerChar :: "char \<Rightarrow> char" where
  "toLowerChar c =
     (let n = (of_char c :: nat)
      in if (65 \<le> n \<and> n \<le> 90) \<or> (192 \<le> n \<and> n \<le> 222 \<and> n \<noteq> 215)
         then char_of (n + 32) else c)"

definition toLowerCase :: "string \<Rightarrow> string" where
  "toLowerCase s = map toLowerChar s"

fun startsWith :: "string \<Rightarrow> string \<Rightarrow> bool" where
  "startsWith s [] = True"
| "startsWith [] (k # ks) = False"
| "startsWith (c # cs) (k # ks) = (c = k \<and> startsWith cs ks)"

text \<open>\<open>s.includes(k)\<close>: \<open>k\<close> occurs in \<open>s\<close> as a contiguous substring.\<close>

fun str_includes :: "string \<Rightarrow> string \<Rightarrow> bool" where
  "str_includes [] k = (k = [])"
| "str_includes (c # cs) k = (startsWith (c # cs) k \<or> str_includes cs k)"

section \<open>Weather tags and season (services/weather)\<close>

definition getWeatherTags :: "WeatherSnapshot \<Rightarrow> WeatherTag list" where
  "getWeatherTags weather =
     (let cond = toLowerCase (condition weather)
      in (if temp weather < 10 then [koud] else [])
       @ (if temp weather > 20 then [warm] else [])
       @ (if str_includes cond ''rain'' \<or> str_includes cond ''drizzle''
             \<or> str_includes cond ''thunder'' then [regenachtig] else [])
       @ (if str_includes cond ''clear'' \<or> str_includes cond ''sun'' \<or> cond = ''clouds''
          then [zonnig] else []))"

text \<open>\<open>getCurrentSeason\<close>, as a function of the calendar month (1 to 12) of the clock.\<close>

definition getCurrentSeason :: "nat \<Rightarrow> Season" where
  "getCurrentSeason month =
     (if month \<ge> 3 \<and> month \<le> 5 then lente
      else if month \<ge> 6 \<and> month \<le> 8 then zomer
      else if month \<ge> 9 \<and> month \<le> 11 then herfst
      else winter)"

section \<open>Scoring (services/suggestion)\<close>

record SuggestionScore =
  score_recipeId :: nat
  score_recipeName :: string
  totalScore :: int
  seasonScore :: int
  weatherScore :: int
  recencyScore :: int

text \<open>
  date-fns \<open>differenceInDays\<close>: the number of full days between two instants,
  truncated towards zero. Instants are epoch seconds and a day has 86400 seconds.
\<close>

definition differenceInDays :: "int \<Rightarrow> int \<Rightarrow> int" where
  "differenceInDays l r = sgn (l - r) * (\<bar>l - r\<bar> div 86400)"

text \<open>The most recent \<open>eatenAt\<close> among the rows of a recipe, \<open>None\<close> when it has none.\<close>

fun lastEaten :: "MealHistoryEntry list \<Rightarrow> nat \<Rightarrow> int option" where
  "lastEaten [] rid = None"
| "lastEaten (h # hs) rid =
     (if mh_recipeId h = rid
      then (case lastEaten hs rid of None \<Rightarrow> Some (eatenAt h)
            | Some t \<Rightarrow> Some (max (eatenAt h) t))
      else lastEaten hs rid)"

definition getDaysSinceEaten :: "DB \<Rightarrow> int \<Rightarrow> nat \<Rightarrow> int" where
  "getDaysSinceEaten db now rid =
     (case lastEaten (mealHistory db) rid of
        None \<Rightarrow> 999
      | Some t \<Rightarrow> differenceInDays now t)"

text \<open>
  \<open>scoreRecipe\<close>. The database and the clock reading \<open>now\<close> stand for the query made
  by \<open>getDaysSinceEaten\<close>. A null tag column is parsed to the empty list.
\<close>

definition scoreRecipe ::
  "DB \<Rightarrow> int \<Rightarrow> Recipe \<Rightarrow> WeatherSnapshot \<Rightarrow> Season \<Rightarrow> WeatherTag list \<Rightarrow> SuggestionScore" where
  "scoreRecipe db now recipe weather currentSeason weatherTags =
     (let daysSinceEaten = getDaysSinceEaten db now (recipe_id recipe);
          recipeSeasons = (case recipe_seasons recipe of None \<Rightarrow> [] | Some ts \<Rightarrow> ts);
          recipeWeatherTags = (case recipe_weatherTags recipe of None \<Rightarrow> [] | Some ts \<Rightarrow> ts);
          seasonSc = (if length recipeSeasons > 0
                      then (if currentSeason \<in> set recipeSeasons then 30 else 5)
                      else 15);
          weatherSc = (if length recipeWeatherTags > 0
                       then (let matchingTags = filter (\<lambda>t. t \<in> set weatherTags) recipeWeatherTags
                             in min 30 (int (length matchingTags) * 15))
                       else 10);
          recencySc = (if daysSinceEaten \<ge> 14 then 40
                       else if daysSinceEaten \<ge> 7 then 30
                       else if daysSinceEaten \<ge> 3 then 15
                       else 0)
      in \<lparr> score_recipeId = recipe_id recipe,
           score_recipeName = recipe_name recipe,
           totalScore = seasonSc + weatherSc + recencySc,
           seasonScore = seasonSc,
           weatherScore = weatherSc,
           recencyScore = recencySc \<rparr>)"

text \<open>The tag lists of a recipe as \<open>scoreRecipe\<close> reads them.\<close>

definition seasonsOf :: "Recipe \<Rightarrow> Season list" where
  "seasonsOf recipe = (case recipe_seasons recipe of None \<Rightarrow> [] | Some ts \<Rightarrow> ts)"

definition weatherTagsOf :: "Recipe \<Rightarrow> WeatherTag list" where
  "weatherTagsOf recipe = (case recipe_weatherTags recipe of None \<Rightarrow> [] | Some ts \<Rightarrow> ts)"

section \<open>The environment of a request\<close>

text \<open>
  What a request reads from outside the database: the clock (the local calendar date as
  \<open>yyyy-MM-dd\<close>, the instant in epoch seconds, local midnight of today and of tomorrow,
  the calendar month), the answers of the weather provider, and the values returned by
  \<open>Math.random()\<close>: the one read by \<open>generateSuggestion\<close>, and the one read for the
  \<open>k\<close>-th candidate of the \<open>i\<close>-th day by the week-plan resolver. One request reads the
  clock once.
\<close>

record ForecastDay =
  fc_date :: string
  fc_temp :: int
  fc_icon :: string
  fc_description :: string
  fc_weatherTags :: "WeatherTag list"

record Env =
  today :: string
  now :: int
  todayStart :: int
  tomorrowStart :: int
  month :: nat
  currentWeather :: "error + WeatherSnapshot"
  weekForecast :: "error + ForecastDay list"
  random :: real
  jitter :: "nat \<Rightarrow> nat \<Rightarrow> real"

section \<open>Suggestion engine (services/suggestion)\<close>

text \<open>
  \<open>generateSuggestion\<close>. The sort is the stable sort by descending total score. The two
  \<open>TypeError\<close> branches are the reads on \<open>undefined\<close> that an index outside
  \<open>topCandidates\<close>, or a failed \<open>find\<close>, would cause.
\<close>

function generateSuggestion ::
  "Env \<Rightarrow> DB \<Rightarrow> nat list \<Rightarrow> error + (Recipe \<times> SuggestionScore \<times> WeatherSnapshot)" where
  "generateSuggestion env db excludeRecipeIds =
     (case currentWeather env of
        Inl e \<Rightarrow> Inl e
      | Inr weather \<Rightarrow>
          (let currentSeason = getCurrentSeason (month env);
               weatherTags = getWeatherTags weather;
               allRecipes = recipes db;
               availableRecipes = filter (\<lambda>r. recipe_id r \<notin> set excludeRecipeIds) allRecipes
           in if length availableRecipes = 0
              then (if length allRecipes = 0 then Inl NoRecipesInDatabase
                    else generateSuggestion env db [])
              else
                (let scores = map (\<lambda>r. scoreRecipe db (now env) r weather currentSeason weatherTags)
                                  availableRecipes;
                     sorted = sort_key (\<lambda>s. - totalScore s) scores;
                     topCandidates = take (min 3 (length sorted)) sorted;
                     idx = \<lfloor>random env * real (length topCandidates)\<rfloor>
                 in if idx < 0 \<or> int (length topCandidates) \<le> idx then Inl TypeError
                    else
                      (let selected = topCandidates ! nat idx
                       in case find (\<lambda>r. recipe_id r = score_recipeId selected) availableRecipes of
                            None \<Rightarrow> Inl TypeError
                          | Some recipe \<Rightarrow> Inr (recipe, selected, weather)))))"
  by pat_completeness auto

termination
  by (relation "measure (\<lambda>(env, db, ex).
        if filter (\<lambda>r. recipe_id r \<notin> set ex) (recipes db) = [] \<and> recipes db \<noteq> [] then 1 else 0)")
     auto

declare generateSuggestion.simps [simp del]

text \<open>The rows of today, and the row the query \<open>ORDER BY created_at DESC LIMIT 1\<close> returns
  (rows with equal \<open>createdAt\<close> keep their table order).\<close>

definition todaysSuggestions :: "DB \<Rightarrow> string \<Rightarrow> Suggestion list" where
  "todaysSuggestions db d = filter (\<lambda>s. suggestedFor s = d) (suggestions db)"

definition latestSuggestion :: "DB \<Rightarrow> string \<Rightarrow> Suggestion list" where
  "latestSuggestion db d = take 1 (sort_key (\<lambda>s. - sug_createdAt s) (todaysSuggestions db d))"

definition findRecipe :: "DB \<Rightarrow> nat \<Rightarrow> Recipe option" where
  "findRecipe db rid = find (\<lambda>r. recipe_id r = rid) (recipes db)"

text \<open>Inserting a pending suggestion for today, as both \<open>getTodaySuggestion\<close> and
  \<open>rejectSuggestion\<close> do; the new row and the new database.\<close>

definition insertSuggestion ::
  "DB \<Rightarrow> nat \<Rightarrow> string \<Rightarrow> Status \<Rightarrow> Reason \<Rightarrow> WeatherSnapshot \<Rightarrow> int \<Rightarrow> Suggestion \<times> DB" where
  "insertSuggestion db rid d st rsn weather t =
     (let row = \<lparr> sug_id = seq_suggestions db + 1, sug_recipeId = rid, suggestedFor = d,
                  status = st, reason = rsn, weatherData = weather, sug_createdAt = t \<rparr>
      in (row, db\<lparr> suggestions := suggestions db @ [row],
                  seq_suggestions := seq_suggestions db + 1 \<rparr>))"

text \<open>
  The stateful operations return their outcome and the database they leave behind: an
  error raised after a write does not undo the write.
\<close>

definition getTodaySuggestion :: "Env \<Rightarrow> DB \<Rightarrow> (error + (Suggestion \<times> Recipe option)) \<times> DB" where
  "getTodaySuggestion env db =
     (let acc = latestSuggestion db (today env)
      in if length acc > 0 \<and> status (hd acc) = Accepted
         then (Inr (hd acc, findRecipe db (sug_recipeId (hd acc))), db)
         else if length acc > 0 \<and> status (hd acc) = Pending
         then (Inr (hd acc, findRecipe db (sug_recipeId (hd acc))), db)
         else
           (let excludeIds = map sug_recipeId (todaysSuggestions db (today env))
            in case generateSuggestion env db excludeIds of
                 Inl e \<Rightarrow> (Inl e, db)
               | Inr (recipe, score, weather) \<Rightarrow>
                   (let (suggestion, db') =
                          insertSuggestion db (recipe_id recipe) (today env) Pending
                            (Breakdown (seasonScore score) (weatherScore score) (recencyScore score))
                            weather (now env)
                    in (Inr (suggestion, Some recipe), db'))))"

definition setStatus :: "DB \<Rightarrow> (Suggestion \<Rightarrow> bool) \<Rightarrow> Status \<Rightarrow> DB" where
  "setStatus db P st =
     db\<lparr> suggestions := map (\<lambda>s. if P s then s\<lparr>status := st\<rparr> else s) (suggestions db) \<rparr>"

definition insertMealHistory :: "DB \<Rightarrow> nat \<Rightarrow> int \<Rightarrow> DB" where
  "insertMealHistory db rid t =
     db\<lparr> mealHistory := mealHistory db
            @ [\<lparr> mh_id = seq_mealHistory db + 1, mh_recipeId = rid, eatenAt = t, mh_createdAt = t \<rparr>],
         seq_mealHistory := seq_mealHistory db + 1 \<rparr>"

definition acceptSuggestion :: "Env \<Rightarrow> DB \<Rightarrow> nat \<Rightarrow> (error + unit) \<times> DB" where
  "acceptSuggestion env db suggestionId =
     (let db1 = setStatus db (\<lambda>s. sug_id s = suggestionId) Accepted
      in case find (\<lambda>s. sug_id s = suggestionId) (suggestions db1) of
           None \<Rightarrow> (Inl SuggestionNotFound, db1)
         | Some suggestion \<Rightarrow> (Inr (), insertMealHistory db1 (sug_recipeId suggestion) (now env)))"

definition rejectSuggestion :: "Env \<Rightarrow> DB \<Rightarrow> nat \<Rightarrow> (error + (Suggestion \<times> Recipe)) \<times> DB" where
  "rejectSuggestion env db suggestionId =
     (let found = find (\<lambda>s. sug_id s = suggestionId) (suggestions db);
          db1 = (case found of
                   None \<Rightarrow> db
                 | Some suggestion \<Rightarrow>
                     if status suggestion = Accepted
                     then db\<lparr> mealHistory :=
                               filter (\<lambda>h. \<not> (mh_recipeId h = sug_recipeId suggestion
                                               \<and> eatenAt h \<ge> todayStart env
                                               \<and> eatenAt h < tomorrowStart env))
                                      (mealHistory db) \<rparr>
                     else db);
          db2 = setStatus db1 (\<lambda>s. sug_id s = suggestionId) Rejected;
          excludeIds = map sug_recipeId (todaysSuggestions db2 (today env))
      in case generateSuggestion env db2 excludeIds of
           Inl e \<Rightarrow> (Inl e, db2)
         | Inr (recipe, score, weather) \<Rightarrow>
             (let (newSuggestion, db3) =
                    insertSuggestion db2 (recipe_id recipe) (today env) Pending
                      (Breakdown (seasonScore score) (weatherScore score) (recencyScore score))
                      weather (now env)
              in (Inr (newSuggestion, recipe), db3)))"

section \<open>Shopping list: categories (api/shopping)\<close>

text \<open>
  \<open>ingredientCategories\<close>, in the insertion order that \<open>Object.entries\<close> follows. The
  two non-ASCII letters of the fourth dairy keyword are written by their code units, as
  the source file has them.
\<close>

definition ingredientCategories :: "(string \<times> string list) list" where
  "ingredientCategories =
    [(''Groente & Fruit'',
      [''ui'', ''uien'', ''knoflook'', ''tomaat'', ''tomaten'', ''paprika'', ''wortel'', ''wortels'',
       ''spinazie'', ''sla'', ''komkommer'', ''courgette'', ''aubergine'', ''broccoli'', ''bloemkool'',
       ''champignon'', ''champignons'', ''prei'', ''bosui'', ''lente-ui'', ''gember'', ''citroen'',
       ''limoen'', ''avocado'', ''pompoen'', ''zoete aardappel'', ''aardappel'', ''aardappelen'',
       ''paksoi'', ''sperziebonen'', ''mais'', ''erwten'', ''kikkererwten'', ''bonen'', ''linzen'',
       ''appel'', ''banaan'', ''mango'', ''ananas'', ''granaatappel'', ''basilicum'', ''koriander'',
       ''peterselie'', ''munt'', ''bieslook'', ''dille'', ''rode ui'', ''sjalot'', ''bleekselderij'']),
     (''Zuivel & Eieren'',
      [''melk'', ''room'', ''slagroom'',
       ''cr'' @ [CHR 0xC3, CHR 0xA8] @ ''me fra'' @ [CHR 0xC3, CHR 0xAE] @ ''che'',
       ''yoghurt'', ''kwark'', ''kaas'',
       ''mozzarella'', ''parmezaan'', ''geitenkaas'', ''feta'', ''ricotta'', ''mascarpone'',
       ''boter'', ''ei'', ''eieren'', ''halloumi'', ''cottage cheese'']),
     (''Vlees & Vis'',
      [''kip'', ''kipfilet'', ''kippenbouten'', ''gehakt'', ''rundergehakt'', ''varkensvlees'',
       ''spek'', ''bacon'', ''worst'', ''chorizo'', ''zalm'', ''garnalen'', ''tonijn'', ''kabeljauw'',
       ''makreel'', ''mosselen'', ''vis'', ''kalkoen'', ''eend'', ''lam'']),
     (''Pasta, Rijst & Granen'',
      [''pasta'', ''spaghetti'', ''penne'', ''tagliatelle'', ''orzo'', ''gnocchi'', ''noedels'',
       ''rijst'', ''basmatirijst'', ''risottorijst'', ''couscous'', ''bulgur'', ''quinoa'',
       ''brood'', ''tortilla'', ''wraps'', ''naanbrood'', ''pitabrood'', ''bladerdeeg'']),
     (''Conserven & Sauzen'',
      [''tomatenpuree'', ''passata'', ''gepelde tomaten'', ''tomatenblokjes'', ''kokosmelk'',
       ''sojasaus'', ''oestersaus'', ''vissaus'', ''sriracha'', ''sambal'', ''ketjap'',
       ''mayonaise'', ''mosterd'', ''ketchup'', ''pesto'', ''olijven'', ''kappertjes'',
       ''zongedroogde tomaten'', ''bonen'', ''kidneybonen'', ''witte bonen'', ''linzen'']),
     (''Kruiden & Specerijen'',
      [''zout'', ''peper'', ''paprikapoeder'', ''komijn'', ''kurkuma'', ''koriander'', ''kaneel'',
       ''nootmuskaat'', ''cayennepeper'', ''chilipoeder'', ''oregano'', ''tijm'', ''rozemarijn'',
       ''laurier'', ''currypoeder'', ''garam masala'', ''ras el hanout'', ''za'' @ [CHR 0x27] @ ''atar'',
       ''chilivlokken'', ''kruidnagel'', ''kardemom'', ''foelie'', ''venkelzaad'']),
     (''Noten & Zaden'',
      [''cashewnoten'', ''pinda'' @ [CHR 0x27] @ ''s'', ''amandelen'', ''walnoten'', ''pijnboompitten'',
       ''sesamzaad'', ''zonnebloempitten'', ''pompoenpitten'', ''lijnzaad'', ''chiazaad'']),
     (''Olie & Azijn'',
      [''olijfolie'', ''zonnebloemolie'', ''sesamolie'', ''kokosolie'', ''azijn'', ''balsamico'',
       ''wijnazijn'', ''rijstazijn'', ''appelazijn'']),
     (''Overig'', [])]"

text \<open>The inner loop of \<open>categorizeIngredient\<close>: some keyword of the list occurs in the
  lower-cased name.\<close>

fun matchesKeyword :: "string \<Rightarrow> string list \<Rightarrow> bool" where
  "matchesKeyword lowerName [] = False"
| "matchesKeyword lowerName (keyword # keywords) =
     (if str_includes lowerName keyword then True else matchesKeyword lowerName keywords)"

text \<open>The outer loop: the first category, in order, with a matching keyword.\<close>

fun scanCategories :: "string \<Rightarrow> (string \<times> string list) list \<Rightarrow> string" where
  "scanCategories lowerName [] = ''Overig''"
| "scanCategories lowerName ((cat, keywords) # rest) =
     (if cat = ''Overig'' then scanCategories lowerName rest
      else if matchesKeyword lowerName keywords then cat
      else scanCategories lowerName rest)"

definition categorizeIngredient :: "string \<Rightarrow> string" where
  "categorizeIngredient name = scanCategories (toLowerCase name) ingredientCategories"

section \<open>Shopping list: normalising names (api/shopping)\<close>

text \<open>The white space of \<open>trim\<close> and of the pattern \<open>\s\<close>, within the 8-bit range: tab,
  line feed, vertical tab, form feed, carriage return, space and no-break space.\<close>

definition isSpace :: "char \<Rightarrow> bool" where
  "isSpace c = (of_char c \<in> {9, 10, 11, 12, 13, 32, 160 :: nat})"

definition trim :: "string \<Rightarrow> string" where
  "trim s = rev (dropWhile isSpace (rev (dropWhile isSpace s)))"

text \<open>\<open>replace(/\s+/g, ' ')\<close>: every maximal run of white space becomes one space.\<close>

function collapseSpaces :: "string \<Rightarrow> string" where
  "collapseSpaces [] = []"
| "collapseSpaces (c # cs) =
     (if isSpace c then CHR '' '' # collapseSpaces (dropWhile isSpace cs)
      else c # collapseSpaces cs)"
  by pat_completeness auto

termination
  by (relation "measure length") (auto simp add: le_imp_less_Suc length_dropWhile_le)

text \<open>
  The alternatives of the leading pattern
  \<open>^(verse?|biologische?|grote?|kleine?|rode?|groene?|gele?|witte?)\s+\<close> in the order the
  matcher tries them (the optional \<open>e\<close> first taken, then left out), and the words of the
  trailing pattern \<open>\s+(vers|biologisch|groot|klein|rood|groen|geel|wit)$\<close>.
\<close>

definition leadingDescriptors :: "string list" where
  "leadingDescriptors =
     [''verse'', ''vers'', ''biologische'', ''biologisch'', ''grote'', ''grot'',
      ''kleine'', ''klein'', ''rode'', ''rod'', ''groene'', ''groen'', ''gele'', ''gel'',
      ''witte'', ''witt'']"

definition trailingDescriptors :: "string list" where
  "trailingDescriptors =
     [''vers'', ''biologisch'', ''groot'', ''klein'', ''rood'', ''groen'', ''geel'', ''wit'']"

text \<open>A word followed by at least one white-space character starts the string.\<close>

definition wordThenSpace :: "string \<Rightarrow> string \<Rightarrow> bool" where
  "wordThenSpace s w =
     (startsWith s w \<and> (case drop (length w) s of [] \<Rightarrow> False | c # _ \<Rightarrow> isSpace c))"

text \<open>The first replace: the match is the descriptor and the white space after it.\<close>

definition stripLeading :: "string \<Rightarrow> string" where
  "stripLeading s =
     (case find (wordThenSpace s) leadingDescriptors of
        None \<Rightarrow> s
      | Some w \<Rightarrow> dropWhile isSpace (drop (length w) s))"

text \<open>The second replace: the leftmost match is the whole run of white space before the
  final word, and the word; it is found on the reversed string.\<close>

definition stripTrailing :: "string \<Rightarrow> string" where
  "stripTrailing s =
     (case find (\<lambda>w. wordThenSpace (rev s) (rev w)) trailingDescriptors of
        None \<Rightarrow> s
      | Some w \<Rightarrow> rev (dropWhile isSpace (drop (length w) (rev s))))"

definition normalizeIngredientName :: "string \<Rightarrow> string" where
  "normalizeIngredientName name =
     stripTrailing (stripLeading (collapseSpaces (trim (toLowerCase name))))"

section \<open>Shopping list: merging ingredients (api/shopping)\<close>

text \<open>An ingredient line with the recipe it comes from. An amount is the rational number
  that the code's number denotes.\<close>

record ShopIngredient = Ingredient +
  recipeName :: string
  recipeId :: nat

record IngredientSource =
  src_recipeName :: string
  src_recipeId :: nat
  src_amount :: "rat option"
  src_unit :: "string option"

record MergedEntry =
  me_name :: string
  me_displayName :: string
  me_amounts :: "(rat option \<times> string option) list"
  me_category :: string
  me_sources :: "IngredientSource list"

record ShoppingItem =
  item_name :: string
  displayName :: string
  item_amount :: "rat option"
  item_unit :: "string option"
  category :: string
  sources :: "IngredientSource list"

definition sourceOf :: "ShopIngredient \<Rightarrow> IngredientSource" where
  "sourceOf ing = \<lparr> src_recipeName = recipeName ing, src_recipeId = recipeId ing,
                    src_amount = ing_amount ing, src_unit = ing_unit ing \<rparr>"

text \<open>
  The first loop of \<open>mergeIngredients\<close>. The \<open>Map\<close> is an association list in insertion
  order: a key that is present has its entry extended in place, a new key is appended.
\<close>

fun collect :: "ShopIngredient list \<Rightarrow> (string \<times> MergedEntry) list \<Rightarrow> (string \<times> MergedEntry) list" where
  "collect [] merged = merged"
| "collect (ing # ings) merged =
     (let normalizedName = normalizeIngredientName (ing_name ing);
          key = normalizedName
      in if key \<in> fst ` set merged
         then collect ings
                (map (\<lambda>(k, existing).
                        if k = key
                        then (k, existing\<lparr> me_amounts := me_amounts existing @ [(ing_amount ing, ing_unit ing)],
                                          me_sources := me_sources existing @ [sourceOf ing] \<rparr>)
                        else (k, existing))
                     merged)
         else collect ings
                (merged @ [(key, \<lparr> me_name = normalizedName,
                                    me_displayName = ing_name ing,
                                    me_amounts = [(ing_amount ing, ing_unit ing)],
                                    me_category = categorizeIngredient (ing_name ing),
                                    me_sources = [sourceOf ing] \<rparr>)]))"

text \<open>\<open>(unit || '').toLowerCase()\<close>.\<close>

definition unitKey :: "string option \<Rightarrow> string" where
  "unitKey u = toLowerCase (case u of None \<Rightarrow> [] | Some s \<Rightarrow> s)"

text \<open>
  The loop over the amounts of one entry: the sums per unit key, in insertion order, and
  whether an amount was null. The code adds numbers with the \<open>+\<close> of its runtime, which
  rounds; that addition is the parameter \<open>addNum\<close>, of which nothing is assumed.
\<close>

fun groupUnits ::
  "(rat \<Rightarrow> rat \<Rightarrow> rat) \<Rightarrow> (rat option \<times> string option) list
   \<Rightarrow> (string \<times> rat) list \<times> bool \<Rightarrow> (string \<times> rat) list \<times> bool" where
  "groupUnits addNum [] acc = acc"
| "groupUnits addNum ((amount, u) # rest) (unitGroups, hasNull) =
     (case amount of
        None \<Rightarrow> groupUnits addNum rest (unitGroups, True)
      | Some a \<Rightarrow>
          groupUnits addNum rest
            (if unitKey u \<in> fst ` set unitGroups
             then map (\<lambda>(k, tot). if k = unitKey u then (k, addNum tot a) else (k, tot)) unitGroups
             else unitGroups @ [(unitKey u, addNum 0 a)],
             hasNull))"

definition combine :: "(rat \<Rightarrow> rat \<Rightarrow> rat) \<Rightarrow> MergedEntry \<Rightarrow> ShoppingItem" where
  "combine addNum item =
     (let (unitGroups, hasNull) = groupUnits addNum (me_amounts item) ([], False)
      in if length unitGroups = 1 \<and> \<not> hasNull
         then (case hd unitGroups of (u, tot) \<Rightarrow>
                 \<lparr> item_name = me_name item, displayName = me_displayName item,
                   item_amount = Some tot, item_unit = (if u = [] then None else Some u),
                   category = me_category item, sources = me_sources item \<rparr>)
         else \<lparr> item_name = me_name item, displayName = me_displayName item,
                item_amount = fst (hd (me_amounts item)), item_unit = snd (hd (me_amounts item)),
                category = me_category item, sources = me_sources item \<rparr>)"

definition mergeIngredients :: "(rat \<Rightarrow> rat \<Rightarrow> rat) \<Rightarrow> ShopIngredient list \<Rightarrow> ShoppingItem list" where
  "mergeIngredients addNum ingredients = map (combine addNum \<circ> snd) (collect ingredients [])"

section \<open>Week plan (index)\<close>

text \<open>
  A day of the week-plan response. The day name, a function of the date alone, and the
  image URL of the recipe are left out.
\<close>

record RecipeRef =
  ref_id :: nat
  ref_name :: string
  ref_category :: string

record WeekDay =
  day_date :: string
  day_temp :: int
  day_icon :: string
  day_description :: string
  day_status :: "Status option"
  day_recipe :: "RecipeRef option"

definition refOf :: "Recipe \<Rightarrow> RecipeRef" where
  "refOf recipe = \<lparr> ref_id = recipe_id recipe, ref_name = recipe_name recipe,
                    ref_category = recipe_category recipe \<rparr>"

text \<open>\<open>a ?? b\<close>.\<close>

definition orElse :: "'a option \<Rightarrow> 'a \<Rightarrow> 'a" where
  "orElse a b = (case a of None \<Rightarrow> b | Some v \<Rightarrow> v)"

text \<open>The insert of a generated day, with \<open>onConflictDoNothing\<close> on the unique date.\<close>

definition insertWeekPlan :: "DB \<Rightarrow> ForecastDay \<Rightarrow> nat \<Rightarrow> int \<Rightarrow> DB" where
  "insertWeekPlan db day rid t =
     (if fc_date day \<in> wp_date ` set (weekPlan db) then db
      else db\<lparr> weekPlan := weekPlan db
                  @ [\<lparr> wp_id = seq_weekPlan db + 1, wp_date = fc_date day, wp_recipeId = Some rid,
                       wp_cleared = False, wp_temp = Some (fc_temp day),
                       wp_icon = Some (fc_icon day), wp_description = Some (fc_description day),
                       wp_createdAt = t \<rparr>],
               seq_weekPlan := seq_weekPlan db + 1 \<rparr>)"

text \<open>The score of the \<open>k\<close>-th candidate of the \<open>i\<close>-th day of the window.\<close>

definition dayScore :: "Env \<Rightarrow> Season \<Rightarrow> ForecastDay \<Rightarrow> nat \<Rightarrow> nat \<Rightarrow> Recipe \<Rightarrow> real" where
  "dayScore env currentSeason day i k recipe =
     (if currentSeason \<in> set (seasonsOf recipe) then 30 else 0)
     + real (length (filter (\<lambda>t. t \<in> set (fc_weatherTags day)) (weatherTagsOf recipe))) * 15
     + jitter env i k * 10"

text \<open>The branch of the loop body that generates a day: the candidates not yet used in
  the window, scored, sorted by descending score, the first one taken and stored.\<close>

definition generateDay ::
  "Env \<Rightarrow> Recipe list \<Rightarrow> Season \<Rightarrow> nat \<Rightarrow> ForecastDay
   \<Rightarrow> WeekDay list \<times> nat list \<times> DB \<Rightarrow> WeekDay list \<times> nat list \<times> DB" where
  "generateDay env allRecipes currentSeason i day st =
     (case st of (result, usedRecipeIds, db) \<Rightarrow>
        (let availableRecipes = filter (\<lambda>r. recipe_id r \<notin> set usedRecipeIds) allRecipes;
             scored = map (\<lambda>(k, recipe). (recipe, dayScore env currentSeason day i k recipe))
                          (enumerate 0 availableRecipes);
             sorted = sort_key (\<lambda>(recipe, score). - score) scored;
             topRecipe = (case sorted of [] \<Rightarrow> None | (recipe, score) # _ \<Rightarrow> Some recipe);
             out = \<lparr> day_date = fc_date day, day_temp = fc_temp day, day_icon = fc_icon day,
                     day_description = fc_description day, day_status = None,
                     day_recipe = map_option refOf topRecipe \<rparr>
         in case topRecipe of
              None \<Rightarrow> (result @ [out], usedRecipeIds, db)
            | Some r \<Rightarrow> (result @ [out], usedRecipeIds @ [recipe_id r],
                         insertWeekPlan db day (recipe_id r) (now env))))"

text \<open>The part of the loop body after the check of today's suggestion: a stored plan of
  the date is used, a date without one is generated.\<close>

definition storedOrGenerated ::
  "Env \<Rightarrow> Recipe list \<Rightarrow> Season \<Rightarrow> nat \<Rightarrow> ForecastDay
   \<Rightarrow> WeekDay list \<times> nat list \<times> DB \<Rightarrow> WeekDay list \<times> nat list \<times> DB" where
  "storedOrGenerated env allRecipes currentSeason i day st =
     (case st of (result, usedRecipeIds, db) \<Rightarrow>
        (case find (\<lambda>p. wp_date p = fc_date day) (weekPlan db) of
           Some stored \<Rightarrow>
             if wp_cleared stored
             then (result @ [\<lparr> day_date = fc_date day,
                               day_temp = orElse (wp_temp stored) (fc_temp day),
                               day_icon = orElse (wp_icon stored) (fc_icon day),
                               day_description = orElse (wp_description stored) (fc_description day),
                               day_status = Some Cleared, day_recipe = None \<rparr>],
                   usedRecipeIds, db)
             else
               (let recipe = (case wp_recipeId stored of
                                None \<Rightarrow> None
                              | Some rid \<Rightarrow>
                                  if rid \<noteq> 0 then find (\<lambda>r. recipe_id r = rid) allRecipes
                                  else None);
                    used = (case wp_recipeId stored of
                              None \<Rightarrow> usedRecipeIds
                            | Some rid \<Rightarrow>
                                if rid \<noteq> 0 then usedRecipeIds @ [rid] else usedRecipeIds)
                in (result @ [\<lparr> day_date = fc_date day,
                                  day_temp = orElse (wp_temp stored) (fc_temp day),
                                  day_icon = orElse (wp_icon stored) (fc_icon day),
                                  day_description = orElse (wp_description stored) (fc_description day),
                                  day_status = None, day_recipe = map_option refOf recipe \<rparr>],
                    used, db))
         | None \<Rightarrow> generateDay env allRecipes currentSeason i day st))"

text \<open>Today's suggestion decides the day of a date: the date is today, a suggestion row
  exists, and it is cleared or its recipe is in the catalog.\<close>

definition suggestionDecides :: "Env \<Rightarrow> Recipe list \<Rightarrow> Suggestion list \<Rightarrow> string \<Rightarrow> bool" where
  "suggestionDecides env allRecipes todaySuggestion date =
     (date = today env \<and> length todaySuggestion > 0
      \<and> (status (hd todaySuggestion) = Cleared
         \<or> find (\<lambda>r. recipe_id r = sug_recipeId (hd todaySuggestion)) allRecipes \<noteq> None))"

text \<open>The loop body.\<close>

definition resolveDay ::
  "Env \<Rightarrow> Recipe list \<Rightarrow> Season \<Rightarrow> Suggestion list \<Rightarrow> nat \<Rightarrow> ForecastDay
   \<Rightarrow> WeekDay list \<times> nat list \<times> DB \<Rightarrow> WeekDay list \<times> nat list \<times> DB" where
  "resolveDay env allRecipes currentSeason todaySuggestion i day st =
     (case st of (result, usedRecipeIds, db) \<Rightarrow>
        if fc_date day = today env \<and> length todaySuggestion > 0
        then (let suggestion = hd todaySuggestion
              in if status suggestion = Cleared
                 then (result @ [\<lparr> day_date = fc_date day, day_temp = fc_temp day,
                                   day_icon = fc_icon day, day_description = fc_description day,
                                   day_status = Some Cleared, day_recipe = None \<rparr>],
                       usedRecipeIds, db)
                 else (case find (\<lambda>r. recipe_id r = sug_recipeId suggestion) allRecipes of
                         Some recipe \<Rightarrow>
                           (result @ [\<lparr> day_date = fc_date day, day_temp = fc_temp day,
                                        day_icon = fc_icon day, day_description = fc_description day,
                                        day_status = Some (status suggestion),
                                        day_recipe = Some (refOf recipe) \<rparr>],
                            usedRecipeIds @ [recipe_id recipe], db)
                       | None \<Rightarrow> storedOrGenerated env allRecipes currentSeason i day st))
        else storedOrGenerated env allRecipes currentSeason i day st)"

text \<open>The loop over the days of the window, the \<open>i\<close>-th day first.\<close>

fun resolveDays ::
  "Env \<Rightarrow> Recipe list \<Rightarrow> Season \<Rightarrow> Suggestion list \<Rightarrow> nat \<Rightarrow> ForecastDay list
   \<Rightarrow> WeekDay list \<times> nat list \<times> DB \<Rightarrow> WeekDay list \<times> nat list \<times> DB" where
  "resolveDays env allRecipes currentSeason todaySuggestion i [] st = st"
| "resolveDays env allRecipes currentSeason todaySuggestion i (day # days) st =
     resolveDays env allRecipes currentSeason todaySuggestion (Suc i) days
       (resolveDay env allRecipes currentSeason todaySuggestion i day st)"

text \<open>The days of the window: today, from the current weather, then the forecast days
  other than today, seven at most.\<close>

definition allDays :: "Env \<Rightarrow> WeatherSnapshot \<Rightarrow> ForecastDay list \<Rightarrow> ForecastDay list" where
  "allDays env currentW forecast =
     take 7 (\<lparr> fc_date = today env, fc_temp = temp currentW, fc_icon = icon currentW,
               fc_description = description currentW, fc_weatherTags = [] \<rparr>
             # filter (\<lambda>d. fc_date d \<noteq> today env) forecast)"

text \<open>\<open>GET /api/weekplan\<close>.\<close>

definition getWeekPlan :: "Env \<Rightarrow> DB \<Rightarrow> (error + WeekDay list) \<times> DB" where
  "getWeekPlan env db =
     (case weekForecast env of
        Inl e \<Rightarrow> (Inl e, db)
      | Inr forecast \<Rightarrow>
          (case currentWeather env of
             Inl e \<Rightarrow> (Inl e, db)
           | Inr currentW \<Rightarrow>
               (let allRecipes = recipes db;
                    currentSeason = getCurrentSeason (month env);
                    todaySuggestion = latestSuggestion db (today env)
                in case resolveDays env allRecipes currentSeason todaySuggestion 0
                          (allDays env currentW forecast) ([], [], db) of
                     (result, usedRecipeIds, db') \<Rightarrow> (Inr result, db'))))"

text \<open>\<open>PUT /api/weekplan/:date\<close>, the manual pick of a recipe for a day.\<close>

definition setDayRecipe :: "Env \<Rightarrow> DB \<Rightarrow> string \<Rightarrow> nat \<Rightarrow> (error + RecipeRef) \<times> DB" where
  "setDayRecipe env db date rid =
     (if rid = 0 then (Inl RecipeIdRequired, db)
      else case findRecipe db rid of
             None \<Rightarrow> (Inl RecipeNotFound, db)
           | Some recipe \<Rightarrow>
               if date = today env
               then (case currentWeather env of
                       Inl e \<Rightarrow> (Inl e, db)
                     | Inr weather \<Rightarrow>
                         (let db1 = setStatus db (\<lambda>s. suggestedFor s = date) Rejected;
                              (row, db2) = insertSuggestion db1 (recipe_id recipe) date Accepted
                                             Manual weather (now env)
                          in (Inr (refOf recipe), db2)))
               else (case find (\<lambda>p. wp_date p = date) (weekPlan db) of
                       Some currentPlan \<Rightarrow>
                         (Inr (refOf recipe),
                          db\<lparr> weekPlan := map (\<lambda>p. if wp_date p = date
                                                     then p\<lparr> wp_recipeId := Some (recipe_id recipe),
                                                            wp_cleared := False \<rparr>
                                                     else p) (weekPlan db) \<rparr>)
                     | None \<Rightarrow>
                         (Inr (refOf recipe),
                          db\<lparr> weekPlan := weekPlan db
                                 @ [\<lparr> wp_id = seq_weekPlan db + 1, wp_date = date,
                                      wp_recipeId = Some (recipe_id recipe), wp_cleared = False,
                                      wp_temp = Some 0, wp_icon = Some ''01d'',
                                      wp_description = Some [], wp_createdAt = now env \<rparr>],
                              seq_weekPlan := seq_weekPlan db + 1 \<rparr>)))"

section \<open>Shopping list (api/shopping)\<close>

text \<open>
  The response of \<open>GET /api/shopping\<close>: the merged items and the recipes of the window.
  The view of the same items grouped by category, in Dutch collation order, and the
  generation timestamp are left out.
\<close>

record PlanRecipe =
  pr_id :: nat
  pr_name :: string
  pr_date :: string
  pr_servings :: nat

record ShoppingResponse =
  items :: "ShoppingItem list"
  planRecipes :: "PlanRecipe list"

text \<open>The row the query \<open>ORDER BY created_at LIMIT 1\<close> of the shopping list returns.\<close>

definition firstSuggestion :: "DB \<Rightarrow> string \<Rightarrow> Suggestion list" where
  "firstSuggestion db d = take 1 (sort_key sug_createdAt (todaysSuggestions db d))"

text \<open>\<open>Map.set\<close> on an association list in insertion order.\<close>

definition mapSet :: "'k \<Rightarrow> 'v \<Rightarrow> ('k \<times> 'v) list \<Rightarrow> ('k \<times> 'v) list" where
  "mapSet k v m =
     (if k \<in> fst ` set m
      then map (\<lambda>(k', v'). if k' = k then (k', v) else (k', v')) m
      else m @ [(k, v)])"

text \<open>\<open>recipeMap.get\<close>, for the map built from the fetched recipes: a later recipe of
  the list wins over an earlier one with the same id.\<close>

definition recipeMapGet :: "Recipe list \<Rightarrow> nat option \<Rightarrow> Recipe option" where
  "recipeMapGet recipeList rid =
     (case rid of None \<Rightarrow> None
      | Some n \<Rightarrow> find (\<lambda>r. recipe_id r = n) (rev recipeList))"

definition withRecipe :: "Recipe \<Rightarrow> Ingredient \<Rightarrow> ShopIngredient" where
  "withRecipe recipe ing =
     \<lparr> ing_name = ing_name ing, ing_amount = ing_amount ing, ing_unit = ing_unit ing,
       scalable = scalable ing, recipeName = recipe_name recipe, recipeId = recipe_id recipe \<rparr>"

text \<open>The loop over the sorted dates: a date whose recipe is not among the fetched ones
  is skipped.\<close>

fun collectPlan ::
  "Recipe list \<Rightarrow> (string \<times> nat option) list \<Rightarrow> ShopIngredient list \<times> PlanRecipe list
   \<Rightarrow> ShopIngredient list \<times> PlanRecipe list" where
  "collectPlan recipeList [] acc = acc"
| "collectPlan recipeList ((date, rid) # rest) (allIngredients, recipesInPlan) =
     (case recipeMapGet recipeList rid of
        None \<Rightarrow> collectPlan recipeList rest (allIngredients, recipesInPlan)
      | Some recipe \<Rightarrow>
          (let servings = (case defaultServings recipe of
                             None \<Rightarrow> 2 | Some n \<Rightarrow> if n = 0 then 2 else n)
           in collectPlan recipeList rest
                (allIngredients @ map (withRecipe recipe) (recipe_ingredients recipe),
                 recipesInPlan @ [\<lparr> pr_id = recipe_id recipe, pr_name = recipe_name recipe,
                                     pr_date = date, pr_servings = servings \<rparr>])))"

text \<open>
  \<open>GET /api/shopping\<close>, with the database it leaves behind. Dates are compared and
  sorted as strings, character by character, which is the order of \<open>yyyy-MM-dd\<close> dates.
\<close>

definition getShoppingList :: "(rat \<Rightarrow> rat \<Rightarrow> rat) \<Rightarrow> Env \<Rightarrow> DB \<Rightarrow> ShoppingResponse \<times> DB" where
  "getShoppingList addNum env db =
     (let weekPlans = weekPlan db;
          todaySuggestion = firstSuggestion db (today env);
          recipeIds0 = (if length todaySuggestion > 0
                        then [Some (sug_recipeId (hd todaySuggestion))] else []);
          dateToRecipeId0 = (if length todaySuggestion > 0
                             then [(today env, Some (sug_recipeId (hd todaySuggestion)))] else []);
          recipeIds = recipeIds0 @ map wp_recipeId weekPlans;
          dateToRecipeId = foldl (\<lambda>m plan. mapSet (wp_date plan) (wp_recipeId plan) m)
                                 dateToRecipeId0 weekPlans
      in if length recipeIds = 0
         then (\<lparr> items = [], planRecipes = [] \<rparr>, db)
         else
           (let recipeList = filter (\<lambda>r. Some (recipe_id r) \<in> set recipeIds) (recipes db);
                sortedDates = take 7 (sort_key fst
                                (filter (\<lambda>(date, rid). date \<ge> today env) dateToRecipeId));
                (allIngredients, recipesInPlan) = collectPlan recipeList sortedDates ([], [])
            in (\<lparr> items = mergeIngredients addNum allIngredients, planRecipes = recipesInPlan \<rparr>, db)))"

section \<open>Vocabulary of the properties\<close>

text \<open>Definitions that the statements below use to speak about the code above.\<close>

text \<open>
  The candidate pool (all recipes minus the excluded ids) and the candidates of a pool
  scored and sorted by descending total score, as \<open>generateSuggestion\<close> computes them.
\<close>

definition pool :: "DB \<Rightarrow> nat list \<Rightarrow> Recipe list" where
  "pool db ex = filter (\<lambda>r. recipe_id r \<notin> set ex) (recipes db)"

definition ranked :: "Env \<Rightarrow> DB \<Rightarrow> WeatherSnapshot \<Rightarrow> Recipe list \<Rightarrow> SuggestionScore list" where
  "ranked env db weather rs =
     sort_key (\<lambda>s. - totalScore s)
       (map (\<lambda>r. scoreRecipe db (now env) r weather (getCurrentSeason (month env))
                    (getWeatherTags weather)) rs)"

text \<open>The test of \<open>getTodaySuggestion\<close> on the row that its query returns: there is
  one, and it is accepted or pending.\<close>

definition hasCurrent :: "DB \<Rightarrow> string \<Rightarrow> bool" where
  "hasCurrent db d =
     (case latestSuggestion db d of [] \<Rightarrow> False
      | s # _ \<Rightarrow> status s = Accepted \<or> status s = Pending)"

text \<open>The pending row that \<open>getTodaySuggestion\<close> and \<open>rejectSuggestion\<close> insert for a
  generated pick.\<close>

definition pendingRow :: "Env \<Rightarrow> DB \<Rightarrow> Recipe \<Rightarrow> SuggestionScore \<Rightarrow> WeatherSnapshot \<Rightarrow> Suggestion" where
  "pendingRow env db recipe score weather =
     \<lparr> sug_id = seq_suggestions db + 1, sug_recipeId = recipe_id recipe,
       suggestedFor = today env, status = Pending,
       reason = Breakdown (seasonScore score) (weatherScore score) (recencyScore score),
       weatherData = weather, sug_createdAt = now env \<rparr>"

text \<open>The rows of the meal history that the compensating delete of \<open>rejectSuggestion\<close>
  leaves: those of another recipe, or eaten outside today's calendar-day window.\<close>

definition survives :: "Env \<Rightarrow> nat \<Rightarrow> MealHistoryEntry \<Rightarrow> bool" where
  "survives env rid h =
     (mh_recipeId h \<noteq> rid \<or> eatenAt h < todayStart env \<or> tomorrowStart env \<le> eatenAt h)"

text \<open>The name that the code computes for a line, the lines of a list with a given such
  name (its occurrences, in encounter order), and the amount of a line read as a number.\<close>

definition normName :: "ShopIngredient \<Rightarrow> string" where
  "normName ing = normalizeIngredientName (ing_name ing)"

definition occurrences :: "string \<Rightarrow> ShopIngredient list \<Rightarrow> ShopIngredient list" where
  "occurrences k ings = filter (\<lambda>i. normName i = k) ings"


text \<open>The keys of the \<open>Map\<close> after a list of lines: each normalised name once, in the
  order of first occurrence; and the entry the first loop holds for a key.\<close>

definition firstKeys :: "ShopIngredient list \<Rightarrow> string list" where
  "firstKeys ings = rev (remdups (rev (map normName ings)))"

definition entryOf :: "string \<Rightarrow> ShopIngredient list \<Rightarrow> MergedEntry" where
  "entryOf k occ =
     \<lparr> me_name = k, me_displayName = ing_name (hd occ),
       me_amounts = map (\<lambda>i. (ing_amount i, ing_unit i)) occ,
       me_category = categorizeIngredient (ing_name (hd occ)),
       me_sources = map sourceOf occ \<rparr>"

definition mergedOf :: "ShopIngredient list \<Rightarrow> (string \<times> MergedEntry) list" where
  "mergedOf ings = map (\<lambda>k. (k, entryOf k (occurrences k ings))) (firstKeys ings)"




fun unwords :: "string list \<Rightarrow> string" where
  "unwords [] = []"
| "unwords [w] = w"
| "unwords (w # v # ws) = w @ CHR '' '' # unwords (v # ws)"














text \<open>The recipe ids that a list of resolved days assigns.\<close>

definition assignedIds :: "WeekDay list \<Rightarrow> nat set" where
  "assignedIds result = {ref_id r | d r. d \<in> set result \<and> day_recipe d = Some r}"

text \<open>The candidate that \<open>generateDay\<close> takes, given the ids used so far.\<close>

definition topOf :: "Env \<Rightarrow> Recipe list \<Rightarrow> Season \<Rightarrow> nat \<Rightarrow> ForecastDay \<Rightarrow> nat list \<Rightarrow> Recipe option" where
  "topOf env allRecipes cs i day used =
     (case sort_key (\<lambda>(recipe, score). - score)
             (map (\<lambda>(k, recipe). (recipe, dayScore env cs day i k recipe))
                  (enumerate 0 (filter (\<lambda>r. recipe_id r \<notin> set used) allRecipes))) of
        [] \<Rightarrow> None
      | (recipe, score) # _ \<Rightarrow> Some recipe)"

text \<open>The database after the delete and the status update of \<open>rejectSuggestion\<close>.\<close>

definition afterReject :: "Env \<Rightarrow> DB \<Rightarrow> nat \<Rightarrow> DB" where
  "afterReject env db sid =
     setStatus
       (case find (\<lambda>s. sug_id s = sid) (suggestions db) of
          None \<Rightarrow> db
        | Some sg \<Rightarrow>
            if status sg = Accepted
            then db\<lparr> mealHistory := filter (survives env (sug_recipeId sg)) (mealHistory db) \<rparr>
            else db)
       (\<lambda>s. sug_id s = sid) Rejected"

text \<open>A row is the most recent row of a date: it is a suggestion for that date, and every
  other suggestion for the date was created strictly earlier.\<close>

definition mostRecent :: "DB \<Rightarrow> string \<Rightarrow> Suggestion \<Rightarrow> bool" where
  "mostRecent db d s =
     (s \<in> set (suggestions db) \<and> suggestedFor s = d
      \<and> (\<forall>s' \<in> set (suggestions db).
            suggestedFor s' = d \<and> s' \<noteq> s \<longrightarrow> sug_createdAt s' < sug_createdAt s))"

section \<open>Example data\<close>

text \<open>Concrete inputs on which the theorems below are instantiated.\<close>

text \<open>Concrete inputs on which the theorems below are instantiated.\<close>

definition soep :: Recipe where
  "soep = \<lparr> recipe_id = 1, recipe_name = ''Soep'', recipe_category = ''soep'',
            recipe_ingredients = [], defaultServings = Some 2,
            recipe_seasons = None, recipe_weatherTags = Some [koud] \<rparr>"

definition emptyDB :: DB where
  "emptyDB = \<lparr> recipes = [], mealHistory = [], suggestions = [], weekPlan = [],
               seq_mealHistory = 0, seq_suggestions = 0, seq_weekPlan = 0 \<rparr>"

definition warmDay :: WeatherSnapshot where
  "warmDay = \<lparr> temp = 25, feelsLike = 25, condition = ''Clear'', description = ''helder'',
               humidity = 40, windSpeed = 10, icon = ''01d'' \<rparr>"

text \<open>A catalog of two recipes, and the environment of a request at noon of a warm day in
  July, with \<open>Math.random()\<close> returning one half.\<close>

definition twoRecipes :: DB where
  "twoRecipes = emptyDB\<lparr> recipes := [soep, soep\<lparr>recipe_id := 2, recipe_name := ''Salade'',
                                                 recipe_weatherTags := Some [warm]\<rparr>] \<rparr>"

definition noon :: Env where
  "noon = \<lparr> today = ''2026-07-01'', now = 1000043200, todayStart = 1000000000,
            tomorrowStart = 1000086400, month = 7,
            currentWeather = Inr warmDay, weekForecast = Inr [],
            random = 1 / 2, jitter = (\<lambda>i k. 0) \<rparr>"

text \<open>The two recipes with one pending suggestion for today.\<close>

definition planDB :: DB where
  "planDB = twoRecipes\<lparr> suggestions :=
      [\<lparr> sug_id = 1, sug_recipeId = 1, suggestedFor = ''2026-07-01'', status = Pending,
         reason = Breakdown 15 0 40, weatherData = warmDay, sug_createdAt = 1000000100 \<rparr>],
      seq_suggestions := 1 \<rparr>"

text \<open>A meal of recipe 1 logged by hand this morning, before its suggestion is accepted.\<close>

definition loggedDB :: DB where
  "loggedDB = planDB\<lparr> mealHistory :=
      [\<lparr> mh_id = 1, mh_recipeId = 1, eatenAt = 1000030000, mh_createdAt = 1000030000 \<rparr>],
      seq_mealHistory := 1 \<rparr>"

text \<open>The same database after that suggestion is accepted at noon, and its accepted row.\<close>

definition acceptedDB :: DB where
  "acceptedDB = snd (acceptSuggestion noon loggedDB 1)"

definition acceptedRow :: Suggestion where
  "acceptedRow = \<lparr> sug_id = 1, sug_recipeId = 1, suggestedFor = ''2026-07-01'', status = Accepted,
         reason = Breakdown 15 0 40, weatherData = warmDay, sug_createdAt = 1000000100 \<rparr>"










text \<open>
  A catalog of seven recipes, a forecast of two days after today, and two databases: one
  after a manual pick of recipe 2 for today and of recipe 1 for both forecast days, one
  after a manual pick of recipe 1 for the first forecast day only; with the week plans
  resolved from them.
\<close>

definition recipeNo :: "nat \<Rightarrow> Recipe" where
  "recipeNo n = soep\<lparr> recipe_id := n \<rparr>"

definition sevenDB :: DB where
  "sevenDB = emptyDB\<lparr> recipes := map recipeNo [1, 2, 3, 4, 5, 6, 7] \<rparr>"

definition dayTwo :: ForecastDay where
  "dayTwo = \<lparr> fc_date = ''2026-07-02'', fc_temp = 22, fc_icon = ''01d'',
              fc_description = ''helder'', fc_weatherTags = [warm, zonnig] \<rparr>"

definition dayThree :: ForecastDay where
  "dayThree = \<lparr> fc_date = ''2026-07-03'', fc_temp = 8, fc_icon = ''10d'',
                fc_description = ''regen'', fc_weatherTags = [koud, regenachtig] \<rparr>"

definition weekEnv :: Env where
  "weekEnv = noon\<lparr> weekForecast := Inr [dayTwo, dayThree] \<rparr>"

definition pickedDB :: DB where
  "pickedDB = snd (setDayRecipe weekEnv
                (snd (setDayRecipe weekEnv
                   (snd (setDayRecipe weekEnv sevenDB ''2026-07-01'' 2)) ''2026-07-02'' 1))
                ''2026-07-03'' 1)"

definition storedDB :: DB where
  "storedDB = snd (setDayRecipe weekEnv sevenDB ''2026-07-02'' 1)"

definition soepRef :: "nat \<Rightarrow> RecipeRef" where
  "soepRef n = \<lparr> ref_id = n, ref_name = ''Soep'', ref_category = ''soep'' \<rparr>"

definition pickedPlan :: "WeekDay list" where
  "pickedPlan =
     [\<lparr> day_date = ''2026-07-01'', day_temp = 25, day_icon = ''01d'',
        day_description = ''helder'', day_status = Some Accepted,
        day_recipe = Some (soepRef 2) \<rparr>,
      \<lparr> day_date = ''2026-07-02'', day_temp = 0, day_icon = ''01d'',
        day_description = [], day_status = None, day_recipe = Some (soepRef 1) \<rparr>,
      \<lparr> day_date = ''2026-07-03'', day_temp = 0, day_icon = ''01d'',
        day_description = [], day_status = None, day_recipe = Some (soepRef 1) \<rparr>]"

definition storedPlan :: "WeekDay list" where
  "storedPlan =
     [\<lparr> day_date = ''2026-07-01'', day_temp = 25, day_icon = ''01d'',
        day_description = ''helder'', day_status = None, day_recipe = Some (soepRef 1) \<rparr>,
      \<lparr> day_date = ''2026-07-02'', day_temp = 0, day_icon = ''01d'',
        day_description = [], day_status = None, day_recipe = Some (soepRef 1) \<rparr>,
      \<lparr> day_date = ''2026-07-03'', day_temp = 8, day_icon = ''10d'',
        day_description = ''regen'', day_status = None, day_recipe = Some (soepRef 2) \<rparr>]"

text \<open>Two recipes with ingredients, and two suggestions of one day: the first one
  rejected, the second one pending.\<close>

definition uiSoep :: Recipe where
  "uiSoep = soep\<lparr> recipe_name := ''Uiensoep'',
       recipe_ingredients := [\<lparr> ing_name = ''ui'', ing_amount = Some 2, ing_unit = None,
                                 scalable = True \<rparr>] \<rparr>"

definition kipSalade :: Recipe where
  "kipSalade = soep\<lparr> recipe_id := 2, recipe_name := ''Kipsalade'', recipe_category := ''salade'',
       recipe_weatherTags := Some [warm],
       recipe_ingredients := [\<lparr> ing_name = ''kipfilet'', ing_amount = Some 300,
                                 ing_unit = Some ''g'', scalable = True \<rparr>] \<rparr>"

definition rejectedThenPending :: DB where
  "rejectedThenPending = emptyDB\<lparr> recipes := [uiSoep, kipSalade], suggestions :=
      [\<lparr> sug_id = 1, sug_recipeId = 1, suggestedFor = ''2026-07-01'', status = Rejected,
         reason = Breakdown 15 0 40, weatherData = warmDay, sug_createdAt = 1000000100 \<rparr>,
       \<lparr> sug_id = 2, sug_recipeId = 2, suggestedFor = ''2026-07-01'', status = Pending,
         reason = Breakdown 15 15 40, weatherData = warmDay, sug_createdAt = 1000000200 \<rparr>],
      seq_suggestions := 2 \<rparr>"

text \<open>One recipe, suggested and rejected earlier today; two recipes, the first one
  suggested and rejected in the very second of the request; and one recipe, suggested and
  accepted earlier today.\<close>

definition soloRejected :: DB where
  "soloRejected = emptyDB\<lparr> recipes := [soep], suggestions :=
      [\<lparr> sug_id = 1, sug_recipeId = 1, suggestedFor = ''2026-07-01'', status = Rejected,
         reason = Breakdown 15 0 40, weatherData = warmDay, sug_createdAt = 1000000100 \<rparr>],
      seq_suggestions := 1 \<rparr>"

definition tiedRejected :: DB where
  "tiedRejected = twoRecipes\<lparr> suggestions :=
      [\<lparr> sug_id = 1, sug_recipeId = 1, suggestedFor = ''2026-07-01'', status = Rejected,
         reason = Breakdown 15 0 40, weatherData = warmDay, sug_createdAt = 1000043200 \<rparr>],
      seq_suggestions := 1 \<rparr>"

definition soloAccepted :: DB where
  "soloAccepted = emptyDB\<lparr> recipes := [soep], suggestions :=
      [\<lparr> sug_id = 1, sug_recipeId = 1, suggestedFor = ''2026-07-01'', status = Accepted,
         reason = Breakdown 15 0 40, weatherData = warmDay, sug_createdAt = 1000000100 \<rparr>],
      seq_suggestions := 1 \<rparr>"

section \<open>Properties of the score\<close>

text \<open>
  C1. The total score is the sum of its three components, and each component is the
  stated function of the recipe's tags, today's weather tags, the current season and the
  number of days since the recipe was last eaten (999 when it never was).
\<close>

theorem scoreRecipe_formula:
  "totalScore (scoreRecipe db tnow recipe weather currentSeason weatherTags)
     = seasonScore (scoreRecipe db tnow recipe weather currentSeason weatherTags)
     + weatherScore (scoreRecipe db tnow recipe weather currentSeason weatherTags)
     + recencyScore (scoreRecipe db tnow recipe weather currentSeason weatherTags)
   \<and> seasonScore (scoreRecipe db tnow recipe weather currentSeason weatherTags)
     = (if currentSeason \<in> set (seasonsOf recipe) then 30
        else if seasonsOf recipe \<noteq> [] then 5 else 15)
   \<and> weatherScore (scoreRecipe db tnow recipe weather currentSeason weatherTags)
     = (if weatherTagsOf recipe \<noteq> []
        then min 30 (15 * int (length (filter (\<lambda>t. t \<in> set weatherTags) (weatherTagsOf recipe))))
        else 10)
   \<and> recencyScore (scoreRecipe db tnow recipe weather currentSeason weatherTags)
     = (let d = (case lastEaten (mealHistory db) (recipe_id recipe) of
                   None \<Rightarrow> 999 | Some t \<Rightarrow> differenceInDays tnow t)
        in if d < 3 then 0
           else if 3 \<le> d \<and> d \<le> 6 then 15
           else if 7 \<le> d \<and> d \<le> 13 then 30
           else 40)"
  by (auto simp add: scoreRecipe_def Let_def seasonsOf_def weatherTagsOf_def getDaysSinceEaten_def
      split: option.splits)

lemma capped_multiple: "min 30 (int n * 15) \<in> {0, 15, 30}"
proof -
  consider "n = 0" | "n = 1" | "2 \<le> n" by linarith
  then show ?thesis
    by cases (auto simp add: min_def)
qed

lemma seasonScore_eq:
  "seasonScore (scoreRecipe db tnow recipe weather currentSeason weatherTags)
     = (if seasonsOf recipe \<noteq> []
        then (if currentSeason \<in> set (seasonsOf recipe) then 30 else 5) else 15)"
  by (simp add: scoreRecipe_def Let_def seasonsOf_def)

lemma weatherScore_eq:
  "weatherScore (scoreRecipe db tnow recipe weather currentSeason weatherTags)
     = (if weatherTagsOf recipe \<noteq> []
        then min 30 (int (length (filter (\<lambda>t. t \<in> set weatherTags) (weatherTagsOf recipe))) * 15)
        else 10)"
  by (simp add: scoreRecipe_def Let_def weatherTagsOf_def)

lemma recencyScore_eq:
  "recencyScore (scoreRecipe db tnow recipe weather currentSeason weatherTags)
     = (if getDaysSinceEaten db tnow (recipe_id recipe) \<ge> 14 then 40
        else if getDaysSinceEaten db tnow (recipe_id recipe) \<ge> 7 then 30
        else if getDaysSinceEaten db tnow (recipe_id recipe) \<ge> 3 then 15 else 0)"
  by (simp add: scoreRecipe_def Let_def)

lemma totalScore_eq:
  "totalScore (scoreRecipe db tnow recipe weather currentSeason weatherTags)
     = seasonScore (scoreRecipe db tnow recipe weather currentSeason weatherTags)
     + weatherScore (scoreRecipe db tnow recipe weather currentSeason weatherTags)
     + recencyScore (scoreRecipe db tnow recipe weather currentSeason weatherTags)"
  by (simp add: scoreRecipe_def Let_def)

lemma seasonScore_range:
  "seasonScore (scoreRecipe db tnow recipe weather currentSeason weatherTags) \<in> {5, 15, 30}"
  by (simp add: seasonScore_eq)

lemma weatherScore_range:
  "weatherScore (scoreRecipe db tnow recipe weather currentSeason weatherTags) \<in> {0, 10, 15, 30}"
  using capped_multiple [of "length (filter (\<lambda>t. t \<in> set weatherTags) (weatherTagsOf recipe))"]
  by (auto simp add: weatherScore_eq)

lemma weatherScore_tagged:
  "weatherTagsOf recipe \<noteq> [] \<Longrightarrow>
   weatherScore (scoreRecipe db tnow recipe weather currentSeason weatherTags) \<in> {0, 15, 30}"
  using capped_multiple [of "length (filter (\<lambda>t. t \<in> set weatherTags) (weatherTagsOf recipe))"]
  by (simp add: weatherScore_eq)

lemma recencyScore_range:
  "recencyScore (scoreRecipe db tnow recipe weather currentSeason weatherTags) \<in> {0, 15, 30, 40}"
  by (simp add: recencyScore_eq)

text \<open>
  C8, as the code has it. The season score is 5, 15 or 30; the weather score is 0, 10, 15
  or 30, and 0, 15 or 30 (a multiple of 15) when the recipe has weather tags; the recency
  score is 0, 15, 30 or 40; the total is between 5 and 100, and at least 20 when the recipe
  has neither season nor weather tags (both neutral defaults apply).
\<close>

theorem score_ranges:
  "seasonScore (scoreRecipe db tnow recipe weather currentSeason weatherTags) \<in> {5, 15, 30}
   \<and> weatherScore (scoreRecipe db tnow recipe weather currentSeason weatherTags) \<in> {0, 10, 15, 30}
   \<and> (weatherTagsOf recipe \<noteq> [] \<longrightarrow>
        weatherScore (scoreRecipe db tnow recipe weather currentSeason weatherTags) \<in> {0, 15, 30})
   \<and> recencyScore (scoreRecipe db tnow recipe weather currentSeason weatherTags) \<in> {0, 15, 30, 40}
   \<and> 5 \<le> totalScore (scoreRecipe db tnow recipe weather currentSeason weatherTags)
   \<and> totalScore (scoreRecipe db tnow recipe weather currentSeason weatherTags) \<le> 100
   \<and> (seasonsOf recipe = [] \<and> weatherTagsOf recipe = [] \<longrightarrow>
        20 \<le> totalScore (scoreRecipe db tnow recipe weather currentSeason weatherTags)
        \<and> totalScore (scoreRecipe db tnow recipe weather currentSeason weatherTags) \<le> 100)"
proof -
  let ?s = "scoreRecipe db tnow recipe weather currentSeason weatherTags"
  have s: "seasonScore ?s \<in> {5, 15, 30}" by (rule seasonScore_range)
  have w: "weatherScore ?s \<in> {0, 10, 15, 30}" by (rule weatherScore_range)
  have r: "recencyScore ?s \<in> {0, 15, 30, 40}" by (rule recencyScore_range)
  have t: "totalScore ?s = seasonScore ?s + weatherScore ?s + recencyScore ?s"
    by (rule totalScore_eq)
  have lo: "5 \<le> totalScore ?s" using s w r t by auto
  have hi: "totalScore ?s \<le> 100" using s w r t by auto
  have neutral: "20 \<le> totalScore ?s"
    if "seasonsOf recipe = []" "weatherTagsOf recipe = []"
  proof -
    have "seasonScore ?s = 15" using that by (simp add: seasonScore_eq)
    moreover have "weatherScore ?s = 10" using that by (simp add: weatherScore_eq)
    ultimately show ?thesis using r t by auto
  qed
  show ?thesis using s w r lo hi neutral weatherScore_tagged by blast
qed

lemma warmDay_tags: "getWeatherTags warmDay = [warm, zonnig]"
  by code_simp

text \<open>
  C8 as stated fails: a recipe tagged \<open>koud\<close> on a warm, clear day has weather score 0,
  which is not among 10, 15 and 30.
\<close>

theorem weatherScore_zero_counterexample:
  "weatherScore (scoreRecipe emptyDB 0 soep warmDay zomer (getWeatherTags warmDay)) \<notin> {10, 15, 30}"
  by code_simp

theorem score_ranges_witness:
  "weatherTagsOf soep \<noteq> [] \<and> weatherScore (scoreRecipe emptyDB 0 soep warmDay zomer [warm, zonnig]) \<in> {0, 15, 30}
   \<and> seasonsOf (soep\<lparr>recipe_weatherTags := None\<rparr>) = [] \<and> weatherTagsOf (soep\<lparr>recipe_weatherTags := None\<rparr>) = []
   \<and> 20 \<le> totalScore (scoreRecipe emptyDB 0 (soep\<lparr>recipe_weatherTags := None\<rparr>) warmDay zomer [warm, zonnig])"
  using score_ranges [of emptyDB 0 soep warmDay zomer "[warm, zonnig]"]
    score_ranges [of emptyDB 0 "soep\<lparr>recipe_weatherTags := None\<rparr>" warmDay zomer "[warm, zonnig]"]
  by (simp add: soep_def weatherTagsOf_def seasonsOf_def)

section \<open>Properties of the suggestion engine\<close>

lemma floor_index:
  fixes r :: real
  assumes "0 \<le> r" "r < 1" "0 < n"
  shows "0 \<le> \<lfloor>r * real n\<rfloor> \<and> \<lfloor>r * real n\<rfloor> < int n"
proof -
  have "r * real n < real n" using assms by simp
  then have "\<lfloor>r * real n\<rfloor> < int n" by (simp add: floor_less_iff)
  moreover have "0 \<le> r * real n" using assms by simp
  ultimately show ?thesis by simp
qed

lemma find_recipe_of_score:
  assumes "s \<in> set (map f rs)" "\<And>r. score_recipeId (f r) = recipe_id r"
  shows "\<exists>r. find (\<lambda>r. recipe_id r = score_recipeId s) rs = Some r \<and> r \<in> set rs
             \<and> recipe_id r = score_recipeId s"
proof -
  from assms obtain r0 where "r0 \<in> set rs" "recipe_id r0 = score_recipeId s" by auto
  then have "find (\<lambda>r. recipe_id r = score_recipeId s) rs \<noteq> None"
    by (auto simp add: find_None_iff)
  then obtain r where r: "find (\<lambda>r. recipe_id r = score_recipeId s) rs = Some r" by auto
  then show ?thesis by (auto simp add: find_Some_iff)
qed

lemma score_recipeId_scoreRecipe:
  "score_recipeId (scoreRecipe db t r w cs ws) = recipe_id r"
  by (simp add: scoreRecipe_def Let_def)

lemma generateSuggestion_scoring:
  assumes w: "currentWeather env = Inr weather"
    and r: "0 \<le> random env" "random env < 1"
    and ne: "pool db ex \<noteq> []"
  shows "\<exists>recipe selected.
           generateSuggestion env db ex = Inr (recipe, selected, weather)
           \<and> recipe \<in> set (pool db ex)
           \<and> recipe_id recipe = score_recipeId selected
           \<and> selected \<in> set (take 3 (ranked env db weather (pool db ex)))"
proof -
  let ?top = "take (min 3 (length (ranked env db weather (pool db ex)))) (ranked env db weather (pool db ex))"
  let ?idx = "\<lfloor>random env * real (length ?top)\<rfloor>"
  have len: "0 < length ?top" using ne by (simp add: ranked_def)
  have idx: "0 \<le> ?idx \<and> ?idx < int (length ?top)"
    using floor_index [OF r len] .
  let ?sel = "?top ! nat ?idx"
  have sel_top: "?sel \<in> set ?top" using idx len by (intro nth_mem) linarith
  then have "?sel \<in> set (ranked env db weather (pool db ex))" by (rule in_set_takeD)
  then have "?sel \<in> set (map (\<lambda>r. scoreRecipe db (now env) r weather (getCurrentSeason (month env))
                    (getWeatherTags weather)) (pool db ex))"
    by (simp add: ranked_def)
  from find_recipe_of_score [OF this score_recipeId_scoreRecipe]
  obtain recipe where f: "find (\<lambda>r. recipe_id r = score_recipeId ?sel) (pool db ex) = Some recipe"
    and mem: "recipe \<in> set (pool db ex)" and rid: "recipe_id recipe = score_recipeId ?sel"
    by blast
  have top3: "?top = take 3 (ranked env db weather (pool db ex))"
    by (simp add: min_def)
  have "generateSuggestion env db ex = Inr (recipe, ?sel, weather)"
    using w ne idx f
    by (simp add: Let_def pool_def ranked_def generateSuggestion.simps [of env db ex])
  then show ?thesis using mem rid sel_top top3 by auto
qed

lemma generateSuggestion_empty_pool:
  "pool db ex = [] \<Longrightarrow> generateSuggestion env db ex = generateSuggestion env db []"
  by (cases "recipes db = []")
     (simp_all add: pool_def Let_def generateSuggestion.simps [of env db ex]
        generateSuggestion.simps [of env db "[]"] split: sum.splits)

lemma generateSuggestion_no_recipes:
  "currentWeather env = Inr weather \<Longrightarrow> recipes db = [] \<Longrightarrow>
   generateSuggestion env db ex = Inl NoRecipesInDatabase"
  by (simp add: Let_def generateSuggestion.simps [of env db ex])

lemma pool_nil [simp]: "pool db [] = recipes db"
  by (simp add: pool_def)

lemma ranked_top3_best:
  assumes "s \<in> set (take 3 (ranked env db weather rs))"
    and "s' \<in> set (drop 3 (ranked env db weather rs))"
  shows "totalScore s' \<le> totalScore s"
proof -
  let ?r = "ranked env db weather rs"
  have "sorted (map (\<lambda>s. - totalScore s) ?r)"
    unfolding ranked_def by (rule sorted_sort_key)
  then have "sorted (map (\<lambda>s. - totalScore s) (take 3 ?r) @ map (\<lambda>s. - totalScore s) (drop 3 ?r))"
    by (simp flip: map_append)
  then have "- totalScore s \<le> - totalScore s'"
    using assms by (auto simp add: sorted_append)
  then show ?thesis by simp
qed

text \<open>
  C9. With the weather fetched and \<open>Math.random()\<close> in its range: an empty pool with
  no exclusions fails with the no-recipes error; an empty pool with exclusions gives what
  the call with the exclusions cleared gives, whose pool is the whole catalog, so that this
  call does not retry again; and with a non-empty catalog the call returns a recipe of the
  pool in use, selected among the first three candidates in descending score order, every
  other candidate scoring no higher. \<open>generateSuggestion\<close> is a total function: its
  termination is proved where it is defined.
\<close>

theorem generateSuggestion_pool_cases:
  assumes w: "currentWeather env = Inr weather"
    and r: "0 \<le> random env \<and> random env < 1"
  shows "(pool db ex = [] \<and> ex = [] \<longrightarrow> generateSuggestion env db ex = Inl NoRecipesInDatabase)
       \<and> (pool db ex = [] \<and> ex \<noteq> [] \<longrightarrow>
            generateSuggestion env db ex = generateSuggestion env db [] \<and> pool db [] = recipes db)
       \<and> (recipes db \<noteq> [] \<longrightarrow>
            (\<exists>recipe selected.
               generateSuggestion env db ex = Inr (recipe, selected, weather)
               \<and> recipe \<in> set (if pool db ex = [] then recipes db else pool db ex)
               \<and> recipe_id recipe = score_recipeId selected
               \<and> selected \<in> set (take 3 (ranked env db weather
                                   (if pool db ex = [] then recipes db else pool db ex)))
               \<and> (\<forall>s \<in> set (drop 3 (ranked env db weather
                                   (if pool db ex = [] then recipes db else pool db ex))).
                     totalScore s \<le> totalScore selected)))"
proof (intro conjI impI)
  assume "pool db ex = [] \<and> ex = []"
  then have "recipes db = []" by (auto simp add: pool_def)
  with w show "generateSuggestion env db ex = Inl NoRecipesInDatabase"
    by (rule generateSuggestion_no_recipes)
next
  assume "pool db ex = [] \<and> ex \<noteq> []"
  then show "generateSuggestion env db ex = generateSuggestion env db []"
    by (simp add: generateSuggestion_empty_pool)
next
  show "pool db [] = recipes db" by simp
next
  assume ne: "recipes db \<noteq> []"
  let ?P = "if pool db ex = [] then recipes db else pool db ex"
  have r1: "0 \<le> random env" and r2: "random env < 1" using r by simp_all
  show "\<exists>recipe selected.
               generateSuggestion env db ex = Inr (recipe, selected, weather)
               \<and> recipe \<in> set ?P
               \<and> recipe_id recipe = score_recipeId selected
               \<and> selected \<in> set (take 3 (ranked env db weather ?P))
               \<and> (\<forall>s \<in> set (drop 3 (ranked env db weather ?P)).
                     totalScore s \<le> totalScore selected)"
  proof (cases "pool db ex = []")
    case True
    have "pool db [] \<noteq> []" using ne by simp
    from generateSuggestion_scoring [OF w r1 r2 this]
    obtain recipe selected where
      "generateSuggestion env db [] = Inr (recipe, selected, weather)"
      "recipe \<in> set (recipes db)" "recipe_id recipe = score_recipeId selected"
      "selected \<in> set (take 3 (ranked env db weather (recipes db)))"
      by auto
    then show ?thesis
      using True generateSuggestion_empty_pool [OF True, of env] ranked_top3_best
      by auto
  next
    case False
    from generateSuggestion_scoring [OF w r1 r2 False]
    obtain recipe selected where
      "generateSuggestion env db ex = Inr (recipe, selected, weather)"
      "recipe \<in> set (pool db ex)" "recipe_id recipe = score_recipeId selected"
      "selected \<in> set (take 3 (ranked env db weather (pool db ex)))"
      by auto
    then show ?thesis
      using False ranked_top3_best by auto
  qed
qed

lemma noon_facts: "currentWeather noon = Inr warmDay" "0 \<le> random noon \<and> random noon < 1"
  by (simp_all add: noon_def)

lemma twoRecipes_pool: "pool twoRecipes [1, 2] = []" "recipes twoRecipes \<noteq> []"
     "pool emptyDB [] = []"
  by (simp_all add: pool_def twoRecipes_def emptyDB_def soep_def)

theorem generateSuggestion_pool_cases_witness:
  "currentWeather noon = Inr warmDay \<and> 0 \<le> random noon \<and> random noon < 1
   \<and> pool emptyDB [] = [] \<and> generateSuggestion noon emptyDB [] = Inl NoRecipesInDatabase
   \<and> pool twoRecipes [1, 2] = [] \<and> [1, 2] \<noteq> ([] :: nat list)
   \<and> generateSuggestion noon twoRecipes [1, 2] = generateSuggestion noon twoRecipes []
   \<and> recipes twoRecipes \<noteq> []
   \<and> (\<exists>recipe selected. generateSuggestion noon twoRecipes [1, 2] = Inr (recipe, selected, warmDay)
         \<and> recipe \<in> set (recipes twoRecipes))"
proof -
  have a: "generateSuggestion noon emptyDB [] = Inl NoRecipesInDatabase"
    using generateSuggestion_pool_cases [OF noon_facts, of emptyDB "[]"] twoRecipes_pool(3)
    by simp
  have b: "generateSuggestion noon twoRecipes [1, 2] = generateSuggestion noon twoRecipes []"
    using generateSuggestion_pool_cases [OF noon_facts, of twoRecipes "[1, 2]"] twoRecipes_pool(1)
    by simp
  have c: "\<exists>recipe selected. generateSuggestion noon twoRecipes [1, 2] = Inr (recipe, selected, warmDay)
         \<and> recipe \<in> set (recipes twoRecipes)"
    using generateSuggestion_pool_cases [OF noon_facts, of twoRecipes "[1, 2]"] twoRecipes_pool(1,2)
    by (simp only: if_True simp_thms) blast
  show ?thesis using a b c noon_facts twoRecipes_pool by simp
qed

lemma latest_cases:
  "latestSuggestion db d = [] \<or> (\<exists>s. latestSuggestion db d = [s])"
  by (cases "sort_key (\<lambda>s. - sug_createdAt s) (todaysSuggestions db d)")
     (simp_all add: latestSuggestion_def)

lemma getTodaySuggestion_current:
  assumes "latestSuggestion db (today env) = s # rest"
    and "status s = Accepted \<or> status s = Pending"
  shows "getTodaySuggestion env db = (Inr (s, findRecipe db (sug_recipeId s)), db)"
  using assms by (auto simp add: getTodaySuggestion_def Let_def)

lemma getTodaySuggestion_generate:
  assumes "\<not> hasCurrent db (today env)"
  shows "getTodaySuggestion env db =
     (case generateSuggestion env db (map sug_recipeId (todaysSuggestions db (today env))) of
        Inl e \<Rightarrow> (Inl e, db)
      | Inr (recipe, score, weather) \<Rightarrow>
          (Inr (pendingRow env db recipe score weather, Some recipe),
           db\<lparr> suggestions := suggestions db @ [pendingRow env db recipe score weather],
               seq_suggestions := seq_suggestions db + 1 \<rparr>))"
proof -
  have "\<not> (length (latestSuggestion db (today env)) > 0
           \<and> status (hd (latestSuggestion db (today env))) = Accepted)"
       "\<not> (length (latestSuggestion db (today env)) > 0
           \<and> status (hd (latestSuggestion db (today env))) = Pending)"
    using assms by (auto simp add: hasCurrent_def split: list.splits)
  then show ?thesis
    by (auto simp add: getTodaySuggestion_def Let_def insertSuggestion_def pendingRow_def
          split: sum.splits prod.splits)
qed

lemma generated_not_excluded:
  assumes w: "currentWeather env = Inr weather"
    and r: "0 \<le> random env \<and> random env < 1"
    and ne: "recipes db \<noteq> []"
  shows "\<exists>recipe score. generateSuggestion env db ex = Inr (recipe, score, weather)
           \<and> recipe \<in> set (recipes db)
           \<and> (pool db ex \<noteq> [] \<longrightarrow> recipe_id recipe \<notin> set ex)"
proof (cases "pool db ex = []")
  case True
  have "pool db [] \<noteq> []" using ne by simp
  from generateSuggestion_scoring [OF w conjunct1 [OF r] conjunct2 [OF r] this]
  obtain recipe selected where "generateSuggestion env db [] = Inr (recipe, selected, weather)"
    and "recipe \<in> set (pool db [])"
    by blast
  then show ?thesis
    using True generateSuggestion_empty_pool [OF True, of env] by auto
next
  case False
  from generateSuggestion_scoring [OF w conjunct1 [OF r] conjunct2 [OF r] False]
  obtain recipe selected where g: "generateSuggestion env db ex = Inr (recipe, selected, weather)"
    and m: "recipe \<in> set (pool db ex)"
    by blast
  have "recipe \<in> set (recipes db)" "recipe_id recipe \<notin> set ex"
    using m by (simp_all add: pool_def)
  then show ?thesis using g by blast
qed

lemma sort_key_least_first:
  assumes x: "x \<in> set xs" and least: "\<forall>y \<in> set xs. y \<noteq> x \<longrightarrow> f x < f y"
  shows "\<exists>rest. sort_key f xs = x # rest"
proof (cases "sort_key f xs")
  case Nil
  then have "set (sort_key f xs) = {}" by simp
  then show ?thesis using x by (simp only: set_sort) simp
next
  case (Cons h rest)
  have hm: "h \<in> set xs"
  proof -
    have "h \<in> set (sort_key f xs)" using Cons by simp
    then show ?thesis by (simp only: set_sort)
  qed
  have xm: "x \<in> set (h # rest)" using x Cons by (metis set_sort)
  have "sorted (map f (h # rest))" using sorted_sort_key [of f xs] Cons by simp
  then have "f h \<le> f x" using xm by auto
  then have "h = x" using least hm by force
  then show ?thesis using Cons by simp
qed

lemma mostRecent_latest:
  assumes "mostRecent db d s"
  shows "latestSuggestion db d = [s]"
proof -
  have m: "s \<in> set (todaysSuggestions db d)"
    using assms by (simp add: mostRecent_def todaysSuggestions_def)
  have l: "\<forall>y \<in> set (todaysSuggestions db d). y \<noteq> s \<longrightarrow> - sug_createdAt s < - sug_createdAt y"
    using assms by (auto simp add: mostRecent_def todaysSuggestions_def)
  from sort_key_least_first [OF m l]
  obtain rest where "sort_key (\<lambda>s. - sug_createdAt s) (todaysSuggestions db d) = s # rest"
    by blast
  then show ?thesis by (simp add: latestSuggestion_def)
qed

lemma no_rows_latest:
  assumes "\<forall>s \<in> set (suggestions db). suggestedFor s \<noteq> d"
  shows "latestSuggestion db d = []"
proof -
  have "todaysSuggestions db d = []"
    using assms by (simp add: todaysSuggestions_def filter_empty_conv)
  then show ?thesis by (simp add: latestSuggestion_def)
qed

lemma mostRecent_appended:
  assumes "\<forall>s' \<in> set (suggestions db). suggestedFor s' = suggestedFor row \<longrightarrow> sug_createdAt s' < sug_createdAt row"
  shows "mostRecent (db\<lparr> suggestions := suggestions db @ [row], seq_suggestions := n \<rparr>)
           (suggestedFor row) row"
  using assms by (auto simp add: mostRecent_def)


text \<open>
  C2, as the code has it. While the row of today that was created strictly last is
  accepted or pending, \<open>getTodaySuggestion\<close> returns that row with its recipe and leaves
  the database as it was, so a second call on the same day returns the same row. When
  today has no row, or its row created strictly last is rejected or cleared, then (with
  the weather fetched, \<open>Math.random()\<close> in its range and a non-empty catalog) it appends
  one pending row for today, holding the pick of \<open>generateSuggestion\<close> called with the
  recipe ids of all of today's rows as exclusions: a recipe of the catalog, and none of
  those already suggested today whenever the catalog has one not yet suggested today. If
  all of today's rows were created before the instant of the call, a second call on the
  same day returns the appended row and leaves the database as the first call left it.
\<close>

theorem getTodaySuggestion_idempotent:
  "(mostRecent db (today env) s \<and> (status s = Accepted \<or> status s = Pending)
      \<and> today env' = today env \<longrightarrow>
        getTodaySuggestion env db = (Inr (s, findRecipe db (sug_recipeId s)), db)
      \<and> getTodaySuggestion env' (snd (getTodaySuggestion env db))
          = (Inr (s, findRecipe db (sug_recipeId s)), db))
   \<and> (((\<forall>r \<in> set (suggestions db). suggestedFor r \<noteq> today env)
         \<or> (mostRecent db (today env) s \<and> (status s = Rejected \<or> status s = Cleared)))
        \<and> currentWeather env = Inr weather
        \<and> 0 \<le> random env \<and> random env < 1 \<and> recipes db \<noteq> [] \<longrightarrow>
      (\<exists>recipe score.
          generateSuggestion env db (map sug_recipeId (todaysSuggestions db (today env)))
            = Inr (recipe, score, weather)
        \<and> getTodaySuggestion env db =
            (Inr (pendingRow env db recipe score weather, Some recipe),
             db\<lparr> suggestions := suggestions db @ [pendingRow env db recipe score weather],
                 seq_suggestions := seq_suggestions db + 1 \<rparr>)
        \<and> recipe \<in> set (recipes db)
        \<and> ((\<exists>r \<in> set (recipes db).
               recipe_id r \<notin> sug_recipeId ` set (todaysSuggestions db (today env))) \<longrightarrow>
             recipe_id recipe \<notin> sug_recipeId ` set (todaysSuggestions db (today env)))
        \<and> ((\<forall>r \<in> set (suggestions db). suggestedFor r = today env \<longrightarrow> sug_createdAt r < now env)
             \<and> today env' = today env \<longrightarrow>
             map_sum id fst (fst (getTodaySuggestion env' (snd (getTodaySuggestion env db))))
               = Inr (pendingRow env db recipe score weather)
           \<and> snd (getTodaySuggestion env' (snd (getTodaySuggestion env db)))
               = snd (getTodaySuggestion env db))))"
proof (intro conjI impI)
  assume h: "mostRecent db (today env) s \<and> (status s = Accepted \<or> status s = Pending)
      \<and> today env' = today env"
  then have l: "latestSuggestion db (today env) = [s]" by (simp add: mostRecent_latest)
  have st: "status s = Accepted \<or> status s = Pending" using h by simp
  show 1: "getTodaySuggestion env db = (Inr (s, findRecipe db (sug_recipeId s)), db)"
    using l st by (rule getTodaySuggestion_current)
  have l': "latestSuggestion db (today env') = [s]" using l h by simp
  have "getTodaySuggestion env' db = (Inr (s, findRecipe db (sug_recipeId s)), db)"
    using l' st by (rule getTodaySuggestion_current)
  then show "getTodaySuggestion env' (snd (getTodaySuggestion env db))
          = (Inr (s, findRecipe db (sug_recipeId s)), db)"
    using 1 by simp
next
  let ?ex = "map sug_recipeId (todaysSuggestions db (today env))"
  assume h: "((\<forall>r \<in> set (suggestions db). suggestedFor r \<noteq> today env)
         \<or> (mostRecent db (today env) s \<and> (status s = Rejected \<or> status s = Cleared)))
        \<and> currentWeather env = Inr weather
        \<and> 0 \<le> random env \<and> random env < 1 \<and> recipes db \<noteq> []"
  then have w: "currentWeather env = Inr weather" and r: "0 \<le> random env \<and> random env < 1"
    and ne: "recipes db \<noteq> []"
    by simp_all
  have nc: "\<not> hasCurrent db (today env)"
  proof (cases "\<forall>r \<in> set (suggestions db). suggestedFor r \<noteq> today env")
    case True
    then have "latestSuggestion db (today env) = []" by (rule no_rows_latest)
    then show ?thesis by (simp add: hasCurrent_def)
  next
    case False
    then have m: "mostRecent db (today env) s" and st: "status s = Rejected \<or> status s = Cleared"
      using h by blast+
    have "latestSuggestion db (today env) = [s]" using m by (rule mostRecent_latest)
    then show ?thesis using st by (auto simp add: hasCurrent_def)
  qed
  from generated_not_excluded [OF w r ne, of ?ex]
  obtain recipe score where g: "generateSuggestion env db ?ex = Inr (recipe, score, weather)"
    and m: "recipe \<in> set (recipes db)"
    and x: "pool db ?ex \<noteq> [] \<longrightarrow> recipe_id recipe \<notin> set ?ex"
    by blast
  let ?row = "pendingRow env db recipe score weather"
  let ?db' = "db\<lparr> suggestions := suggestions db @ [?row],
                 seq_suggestions := seq_suggestions db + 1 \<rparr>"
  have res: "getTodaySuggestion env db = (Inr (?row, Some recipe), ?db')"
    using getTodaySuggestion_generate [OF nc] g by simp
  have left: "(\<exists>r \<in> set (recipes db).
               recipe_id r \<notin> sug_recipeId ` set (todaysSuggestions db (today env))) \<longrightarrow>
             recipe_id recipe \<notin> sug_recipeId ` set (todaysSuggestions db (today env))"
  proof
    assume "\<exists>r \<in> set (recipes db).
               recipe_id r \<notin> sug_recipeId ` set (todaysSuggestions db (today env))"
    then have "pool db ?ex \<noteq> []" by (auto simp add: pool_def filter_empty_conv)
    then show "recipe_id recipe \<notin> sug_recipeId ` set (todaysSuggestions db (today env))"
      using x by simp
  qed
  have again: "(\<forall>r \<in> set (suggestions db). suggestedFor r = today env \<longrightarrow> sug_createdAt r < now env)
             \<and> today env' = today env \<longrightarrow>
             map_sum id fst (fst (getTodaySuggestion env' (snd (getTodaySuggestion env db))))
               = Inr ?row
           \<and> snd (getTodaySuggestion env' (snd (getTodaySuggestion env db)))
               = snd (getTodaySuggestion env db)"
  proof
    assume a: "(\<forall>r \<in> set (suggestions db). suggestedFor r = today env \<longrightarrow> sug_createdAt r < now env)
             \<and> today env' = today env"
    have f: "suggestedFor ?row = today env" "sug_createdAt ?row = now env" "status ?row = Pending"
      by (simp_all add: pendingRow_def)
    have "\<forall>s' \<in> set (suggestions db).
            suggestedFor s' = suggestedFor ?row \<longrightarrow> sug_createdAt s' < sug_createdAt ?row"
      using a unfolding f by blast
    then have "mostRecent ?db' (suggestedFor ?row) ?row" by (rule mostRecent_appended)
    then have "latestSuggestion ?db' (today env') = [?row]"
      using a f(1) by (simp add: mostRecent_latest)
    then have "getTodaySuggestion env' ?db' = (Inr (?row, findRecipe ?db' (sug_recipeId ?row)), ?db')"
      using f(3) by (intro getTodaySuggestion_current) simp_all
    then show "map_sum id fst (fst (getTodaySuggestion env' (snd (getTodaySuggestion env db))))
               = Inr ?row
           \<and> snd (getTodaySuggestion env' (snd (getTodaySuggestion env db)))
               = snd (getTodaySuggestion env db)"
      unfolding res by simp
  qed
  show "\<exists>recipe score.
          generateSuggestion env db ?ex = Inr (recipe, score, weather)
        \<and> getTodaySuggestion env db =
            (Inr (pendingRow env db recipe score weather, Some recipe),
             db\<lparr> suggestions := suggestions db @ [pendingRow env db recipe score weather],
                 seq_suggestions := seq_suggestions db + 1 \<rparr>)
        \<and> recipe \<in> set (recipes db)
        \<and> ((\<exists>r \<in> set (recipes db).
               recipe_id r \<notin> sug_recipeId ` set (todaysSuggestions db (today env))) \<longrightarrow>
             recipe_id recipe \<notin> sug_recipeId ` set (todaysSuggestions db (today env)))
        \<and> ((\<forall>r \<in> set (suggestions db). suggestedFor r = today env \<longrightarrow> sug_createdAt r < now env)
             \<and> today env' = today env \<longrightarrow>
             map_sum id fst (fst (getTodaySuggestion env' (snd (getTodaySuggestion env db))))
               = Inr (pendingRow env db recipe score weather)
           \<and> snd (getTodaySuggestion env' (snd (getTodaySuggestion env db)))
               = snd (getTodaySuggestion env db))"
    using g res m left again by blast
qed


text \<open>
  C2 as stated fails twice. With one recipe in the catalog, suggested and rejected earlier
  today, the new suggestion is that recipe again, not one that excludes the recipes
  suggested today. And when the rejected row was created in the very second of the call,
  the first call appends a pending row with id 2, which is then the row created last,
  and the next call of the same second does not return it but appends a row with id 3.
\<close>

theorem getTodaySuggestion_repeats_counterexample:
  "map sug_recipeId (todaysSuggestions soloRejected (today noon)) = [1]
   \<and> map_sum id (sug_recipeId \<circ> fst) (fst (getTodaySuggestion noon soloRejected)) = Inr 1
   \<and> map_sum id (sug_id \<circ> fst) (fst (getTodaySuggestion noon tiedRejected)) = Inr 2
   \<and> map_sum id (status \<circ> fst) (fst (getTodaySuggestion noon tiedRejected)) = Inr Pending
   \<and> map_sum id (sug_id \<circ> fst)
        (fst (getTodaySuggestion noon (snd (getTodaySuggestion noon tiedRejected)))) = Inr 3"
  by code_simp

lemma planDB_mostRecent:
  "mostRecent planDB (today noon) (hd (suggestions planDB))"
  "status (hd (suggestions planDB)) = Pending"
  "today (noon\<lparr>now := 1000050000\<rparr>) = today noon"
  by (simp_all add: mostRecent_def planDB_def noon_def)

lemma soloRejected_mostRecent:
  "mostRecent soloRejected (today noon) (hd (suggestions soloRejected))"
  "status (hd (suggestions soloRejected)) = Rejected"
  "recipes soloRejected \<noteq> []"
  "sug_createdAt (hd (suggestions soloRejected)) < now noon"
  "suggestions soloRejected = [hd (suggestions soloRejected)]"
  by (simp_all add: mostRecent_def soloRejected_def noon_def emptyDB_def)

theorem getTodaySuggestion_idempotent_witness:
  "mostRecent planDB (today noon) (hd (suggestions planDB))
   \<and> status (hd (suggestions planDB)) = Pending
   \<and> today (noon\<lparr>now := 1000050000\<rparr>) = today noon
   \<and> getTodaySuggestion noon planDB
       = (Inr (hd (suggestions planDB), findRecipe planDB (sug_recipeId (hd (suggestions planDB)))),
          planDB)
   \<and> getTodaySuggestion (noon\<lparr>now := 1000050000\<rparr>) (snd (getTodaySuggestion noon planDB))
       = (Inr (hd (suggestions planDB), findRecipe planDB (sug_recipeId (hd (suggestions planDB)))),
          planDB)
   \<and> mostRecent soloRejected (today noon) (hd (suggestions soloRejected))
   \<and> status (hd (suggestions soloRejected)) = Rejected
   \<and> currentWeather noon = Inr warmDay \<and> 0 \<le> random noon \<and> random noon < 1
   \<and> recipes soloRejected \<noteq> []
   \<and> sug_createdAt (hd (suggestions soloRejected)) < now noon
   \<and> (\<exists>recipe score.
         getTodaySuggestion noon soloRejected =
            (Inr (pendingRow noon soloRejected recipe score warmDay, Some recipe),
             soloRejected\<lparr> suggestions := suggestions soloRejected
                              @ [pendingRow noon soloRejected recipe score warmDay],
                 seq_suggestions := seq_suggestions soloRejected + 1 \<rparr>)
       \<and> map_sum id fst (fst (getTodaySuggestion (noon\<lparr>now := 1000050000\<rparr>)
                                 (snd (getTodaySuggestion noon soloRejected))))
           = Inr (pendingRow noon soloRejected recipe score warmDay))"
proof -
  note p = planDB_mostRecent
  note q = soloRejected_mostRecent
  note a = getTodaySuggestion_idempotent
    [of planDB noon "hd (suggestions planDB)" "noon\<lparr>now := 1000050000\<rparr>" warmDay]
  have a1: "getTodaySuggestion noon planDB
       = (Inr (hd (suggestions planDB), findRecipe planDB (sug_recipeId (hd (suggestions planDB)))),
          planDB)"
    using a p by blast
  have a2: "getTodaySuggestion (noon\<lparr>now := 1000050000\<rparr>) (snd (getTodaySuggestion noon planDB))
       = (Inr (hd (suggestions planDB), findRecipe planDB (sug_recipeId (hd (suggestions planDB)))),
          planDB)"
    using a p by blast
  note b = getTodaySuggestion_idempotent
    [of soloRejected noon "hd (suggestions soloRejected)" "noon\<lparr>now := 1000050000\<rparr>" warmDay]
  have older: "\<forall>r \<in> set (suggestions soloRejected).
                 suggestedFor r = today noon \<longrightarrow> sug_createdAt r < now noon"
  proof
    fix r assume "r \<in> set (suggestions soloRejected)"
    then have "r = hd (suggestions soloRejected)" using q(5) by (metis list.set_cases list.sel(1) list.inject empty_iff list.set(1) set_ConsD)
    then show "suggestedFor r = today noon \<longrightarrow> sug_createdAt r < now noon" using q(4) by simp
  qed
  have b1: "\<exists>recipe score.
         getTodaySuggestion noon soloRejected =
            (Inr (pendingRow noon soloRejected recipe score warmDay, Some recipe),
             soloRejected\<lparr> suggestions := suggestions soloRejected
                              @ [pendingRow noon soloRejected recipe score warmDay],
                 seq_suggestions := seq_suggestions soloRejected + 1 \<rparr>)
       \<and> map_sum id fst (fst (getTodaySuggestion (noon\<lparr>now := 1000050000\<rparr>)
                                 (snd (getTodaySuggestion noon soloRejected))))
           = Inr (pendingRow noon soloRejected recipe score warmDay)"
    using b q(1,2,3) noon_facts older p(3) by blast
  show ?thesis using p q(1,2,3,4) noon_facts a1 a2 b1 by (intro conjI) simp_all
qed

lemma setStatus_fields [simp]:
  "recipes (setStatus db P st) = recipes db"
  "mealHistory (setStatus db P st) = mealHistory db"
  "seq_suggestions (setStatus db P st) = seq_suggestions db"
  "suggestions (setStatus db P st) = map (\<lambda>s. if P s then s\<lparr>status := st\<rparr> else s) (suggestions db)"
  by (simp_all add: setStatus_def)

lemma todaysSuggestions_setStatus:
  "map sug_recipeId (todaysSuggestions (setStatus db P st) d) = map sug_recipeId (todaysSuggestions db d)"
proof -
  have "map sug_recipeId (filter (\<lambda>s. suggestedFor s = d) (map (\<lambda>s. if P s then s\<lparr>status := st\<rparr> else s) xs))
      = map sug_recipeId (filter (\<lambda>s. suggestedFor s = d) xs)" for xs
    by (induction xs) auto
  then show ?thesis by (simp add: todaysSuggestions_def)
qed

lemma pool_recipes_cong: "recipes db' = recipes db \<Longrightarrow> pool db' ex = pool db ex"
  by (simp add: pool_def)

lemma rejectSuggestion_unfold:
  "rejectSuggestion env db sid =
     (case generateSuggestion env (afterReject env db sid)
             (map sug_recipeId (todaysSuggestions db (today env))) of
        Inl e \<Rightarrow> (Inl e, afterReject env db sid)
      | Inr (recipe, score, weather) \<Rightarrow>
          (Inr (pendingRow env (afterReject env db sid) recipe score weather, recipe),
           (afterReject env db sid)\<lparr> suggestions := suggestions (afterReject env db sid)
                 @ [pendingRow env (afterReject env db sid) recipe score weather],
               seq_suggestions := seq_suggestions (afterReject env db sid) + 1 \<rparr>))"
proof -
  let ?db1 = "case find (\<lambda>s. sug_id s = sid) (suggestions db) of
                None \<Rightarrow> db
              | Some sg \<Rightarrow>
                  if status sg = Accepted
                  then db\<lparr> mealHistory := filter (survives env (sug_recipeId sg)) (mealHistory db) \<rparr>
                  else db"
  have s: "(\<lambda>h. \<not> (mh_recipeId h = r \<and> todayStart env \<le> eatenAt h \<and> eatenAt h < tomorrowStart env))
        = survives env r" for r
    by (auto simp add: survives_def fun_eq_iff)
  have d: "todaysSuggestions ?db1 (today env) = todaysSuggestions db (today env)"
    by (simp add: todaysSuggestions_def split: option.splits)
  have a: "afterReject env db sid = setStatus ?db1 (\<lambda>s. sug_id s = sid) Rejected"
    by (simp add: afterReject_def)
  have e: "map sug_recipeId (todaysSuggestions (afterReject env db sid) (today env))
         = map sug_recipeId (todaysSuggestions db (today env))"
    unfolding a by (simp only: todaysSuggestions_setStatus d)
  have "rejectSuggestion env db sid =
     (case generateSuggestion env (afterReject env db sid)
             (map sug_recipeId (todaysSuggestions (afterReject env db sid) (today env))) of
        Inl e \<Rightarrow> (Inl e, afterReject env db sid)
      | Inr (recipe, score, weather) \<Rightarrow>
          (case insertSuggestion (afterReject env db sid) (recipe_id recipe) (today env) Pending
                      (Breakdown (seasonScore score) (weatherScore score) (recencyScore score))
                      weather (now env) of
             (newSuggestion, db3) \<Rightarrow> (Inr (newSuggestion, recipe), db3)))"
    unfolding rejectSuggestion_def Let_def s a ..
  also have "\<dots> = (case generateSuggestion env (afterReject env db sid)
             (map sug_recipeId (todaysSuggestions db (today env))) of
        Inl e \<Rightarrow> (Inl e, afterReject env db sid)
      | Inr (recipe, score, weather) \<Rightarrow>
          (Inr (pendingRow env (afterReject env db sid) recipe score weather, recipe),
           (afterReject env db sid)\<lparr> suggestions := suggestions (afterReject env db sid)
                 @ [pendingRow env (afterReject env db sid) recipe score weather],
               seq_suggestions := seq_suggestions (afterReject env db sid) + 1 \<rparr>))"
    unfolding e by (simp add: insertSuggestion_def pendingRow_def Let_def split: sum.splits)
  finally show ?thesis .
qed

lemma afterReject_fields:
  "recipes (afterReject env db sid) = recipes db"
  "suggestions (afterReject env db sid)
     = map (\<lambda>s. if sug_id s = sid then s\<lparr>status := Rejected\<rparr> else s) (suggestions db)"
  by (simp_all add: afterReject_def split: option.splits)

lemma afterReject_history:
  "find (\<lambda>s. sug_id s = sid) (suggestions db) = Some sg \<Longrightarrow>
   mealHistory (afterReject env db sid)
     = (if status sg = Accepted then filter (survives env (sug_recipeId sg)) (mealHistory db)
        else mealHistory db)"
  by (simp add: afterReject_def)

lemma rejectSuggestion_history:
  "mealHistory (snd (rejectSuggestion env db sid)) = mealHistory (afterReject env db sid)"
  by (simp add: rejectSuggestion_unfold split: sum.splits)

text \<open>
  C4, as the code has it. Rejecting an accepted suggestion deletes every meal-history row
  of its recipe eaten within today's calendar-day window and no other row: rows of the
  recipe on other days and rows of other recipes survive, in order. With the weather
  fetched, \<open>Math.random()\<close> in its range and a non-empty catalog, the suggestion's status
  becomes rejected, and one pending row for today is appended, holding a recipe of the
  catalog: none of those suggested today whenever the catalog has a recipe not yet
  suggested today, and any recipe of the catalog otherwise.
\<close>

theorem rejectSuggestion_accepted:
  assumes f: "find (\<lambda>s. sug_id s = sid) (suggestions db) = Some sg"
    and a: "status sg = Accepted"
    and w: "currentWeather env = Inr weather"
    and r: "0 \<le> random env \<and> random env < 1"
    and ne: "recipes db \<noteq> []"
  shows "mealHistory (snd (rejectSuggestion env db sid))
           = filter (survives env (sug_recipeId sg)) (mealHistory db)
       \<and> (\<exists>recipe row.
             fst (rejectSuggestion env db sid) = Inr (row, recipe)
           \<and> suggestions (snd (rejectSuggestion env db sid))
               = map (\<lambda>s. if sug_id s = sid then s\<lparr>status := Rejected\<rparr> else s) (suggestions db)
                 @ [row]
           \<and> status row = Pending \<and> suggestedFor row = today env
           \<and> sug_recipeId row = recipe_id recipe
           \<and> recipe \<in> set (recipes db)
           \<and> ((\<exists>r \<in> set (recipes db).
                  recipe_id r \<notin> sug_recipeId ` set (todaysSuggestions db (today env))) \<longrightarrow>
                recipe_id recipe \<notin> sug_recipeId ` set (todaysSuggestions db (today env))))"
proof -
  let ?db2 = "afterReject env db sid"
  let ?ex = "map sug_recipeId (todaysSuggestions db (today env))"
  have h: "mealHistory (snd (rejectSuggestion env db sid))
           = filter (survives env (sug_recipeId sg)) (mealHistory db)"
    using afterReject_history [OF f, of env] a by (simp add: rejectSuggestion_history)
  have ne2: "recipes ?db2 \<noteq> []" using ne by (simp add: afterReject_fields)
  from generated_not_excluded [OF w r ne2, of ?ex]
  obtain recipe score where g: "generateSuggestion env ?db2 ?ex = Inr (recipe, score, weather)"
    and m: "recipe \<in> set (recipes ?db2)"
    and x: "pool ?db2 ?ex \<noteq> [] \<longrightarrow> recipe_id recipe \<notin> set ?ex"
    by blast
  have p: "pool ?db2 ?ex = pool db ?ex"
    by (rule pool_recipes_cong) (simp add: afterReject_fields)
  let ?row = "pendingRow env ?db2 recipe score weather"
  have res: "rejectSuggestion env db sid =
      (Inr (?row, recipe),
       ?db2\<lparr> suggestions := suggestions ?db2 @ [?row],
             seq_suggestions := seq_suggestions ?db2 + 1 \<rparr>)"
    using g by (simp add: rejectSuggestion_unfold)
  have "fst (rejectSuggestion env db sid) = Inr (?row, recipe)
           \<and> suggestions (snd (rejectSuggestion env db sid))
               = map (\<lambda>s. if sug_id s = sid then s\<lparr>status := Rejected\<rparr> else s) (suggestions db)
                 @ [?row]
           \<and> status ?row = Pending \<and> suggestedFor ?row = today env
           \<and> sug_recipeId ?row = recipe_id recipe
           \<and> recipe \<in> set (recipes db)
           \<and> (pool db ?ex \<noteq> [] \<longrightarrow>
                recipe_id recipe \<notin> sug_recipeId ` set (todaysSuggestions db (today env)))"
    using res m x p by (simp add: afterReject_fields pendingRow_def)
  moreover have "pool db ?ex \<noteq> []"
    if "\<exists>r \<in> set (recipes db).
          recipe_id r \<notin> sug_recipeId ` set (todaysSuggestions db (today env))"
    using that by (auto simp add: pool_def filter_empty_conv)
  ultimately show ?thesis using h by blast
qed

lemma acceptedDB_eq:
  "acceptedDB = loggedDB\<lparr> suggestions := [acceptedRow],
      mealHistory := mealHistory loggedDB
        @ [\<lparr> mh_id = 2, mh_recipeId = 1, eatenAt = 1000043200, mh_createdAt = 1000043200 \<rparr>],
      seq_mealHistory := 2 \<rparr>"
  by (simp add: acceptedDB_def acceptSuggestion_def setStatus_def insertMealHistory_def
        loggedDB_def planDB_def noon_def acceptedRow_def Let_def)

lemma acceptedDB_facts:
  "find (\<lambda>s. sug_id s = 1) (suggestions acceptedDB) = Some acceptedRow"
  "status acceptedRow = Accepted" "recipes acceptedDB \<noteq> []"
  by (simp_all add: acceptedDB_eq acceptedRow_def loggedDB_def planDB_def twoRecipes_def)

text \<open>
  C4 as stated fails twice: a meal of the recipe logged by hand earlier the same day is
  not the row that the matching \<open>acceptSuggestion\<close> created, and the reject deletes it
  as well; and with one recipe in the catalog, rejecting its accepted suggestion suggests
  that recipe again, not one that excludes the recipes suggested today.
\<close>

theorem reject_deletes_logged_meal_counterexample:
  "mealHistory loggedDB
     = [\<lparr> mh_id = 1, mh_recipeId = 1, eatenAt = 1000030000, mh_createdAt = 1000030000 \<rparr>]
   \<and> mealHistory (snd (acceptSuggestion noon loggedDB 1))
     = [\<lparr> mh_id = 1, mh_recipeId = 1, eatenAt = 1000030000, mh_createdAt = 1000030000 \<rparr>,
        \<lparr> mh_id = 2, mh_recipeId = 1, eatenAt = 1000043200, mh_createdAt = 1000043200 \<rparr>]
   \<and> mealHistory (snd (rejectSuggestion noon (snd (acceptSuggestion noon loggedDB 1)) 1)) = []
   \<and> map sug_recipeId (todaysSuggestions soloAccepted (today noon)) = [1]
   \<and> map_sum id (sug_recipeId \<circ> fst) (fst (rejectSuggestion noon soloAccepted 1)) = Inr 1"
proof -
  have "mealHistory (snd (rejectSuggestion noon acceptedDB 1)) = []"
    unfolding rejectSuggestion_history
    by (simp add: afterReject_def acceptedDB_eq acceptedRow_def survives_def noon_def loggedDB_def)
  then have 1: "mealHistory loggedDB
     = [\<lparr> mh_id = 1, mh_recipeId = 1, eatenAt = 1000030000, mh_createdAt = 1000030000 \<rparr>]
   \<and> mealHistory (snd (acceptSuggestion noon loggedDB 1))
     = [\<lparr> mh_id = 1, mh_recipeId = 1, eatenAt = 1000030000, mh_createdAt = 1000030000 \<rparr>,
        \<lparr> mh_id = 2, mh_recipeId = 1, eatenAt = 1000043200, mh_createdAt = 1000043200 \<rparr>]
   \<and> mealHistory (snd (rejectSuggestion noon (snd (acceptSuggestion noon loggedDB 1)) 1)) = []"
    unfolding acceptedDB_def [symmetric]
    by (simp add: acceptedDB_eq loggedDB_def)
  have 2: "map sug_recipeId (todaysSuggestions soloAccepted (today noon)) = [1]" by code_simp
  have 3: "map_sum id (sug_recipeId \<circ> fst) (fst (rejectSuggestion noon soloAccepted 1)) = Inr 1"
    by code_simp
  show ?thesis using 1 2 3 by simp
qed

theorem rejectSuggestion_accepted_witness:
  "find (\<lambda>s. sug_id s = 1) (suggestions acceptedDB) = Some acceptedRow
   \<and> status acceptedRow = Accepted \<and> currentWeather noon = Inr warmDay
   \<and> 0 \<le> random noon \<and> random noon < 1 \<and> recipes acceptedDB \<noteq> []
   \<and> mealHistory (snd (rejectSuggestion noon acceptedDB 1))
       = filter (survives noon (sug_recipeId acceptedRow)) (mealHistory acceptedDB)
   \<and> (\<exists>recipe row. fst (rejectSuggestion noon acceptedDB 1) = Inr (row, recipe)
         \<and> status row = Pending \<and> suggestedFor row = today noon)"
proof -
  note t = rejectSuggestion_accepted [OF acceptedDB_facts(1,2) noon_facts acceptedDB_facts(3)]
  have "\<exists>recipe row. fst (rejectSuggestion noon acceptedDB 1) = Inr (row, recipe)
         \<and> status row = Pending \<and> suggestedFor row = today noon"
    using t by blast
  then show ?thesis using t acceptedDB_facts noon_facts by simp
qed

section \<open>Properties of the categorisation\<close>

lemma startsWith_iff: "startsWith s k \<longleftrightarrow> (\<exists>post. s = k @ post)"
  by (induction s k rule: startsWith.induct) auto

lemma str_includes_iff: "str_includes s k \<longleftrightarrow> (\<exists>pre post. s = pre @ k @ post)"
proof (induction s)
  case Nil
  then show ?case by simp
next
  case (Cons c cs)
  show ?case
  proof
    assume "str_includes (c # cs) k"
    then consider "startsWith (c # cs) k" | "str_includes cs k" by auto
    then show "\<exists>pre post. c # cs = pre @ k @ post"
    proof cases
      case 1
      then obtain post where "c # cs = k @ post" by (auto simp add: startsWith_iff)
      then have "c # cs = [] @ k @ post" by simp
      then show ?thesis by blast
    next
      case 2
      then obtain pre post where "cs = pre @ k @ post" using Cons.IH by auto
      then have "c # cs = (c # pre) @ k @ post" by simp
      then show ?thesis by blast
    qed
  next
    assume "\<exists>pre post. c # cs = pre @ k @ post"
    then obtain pre post where e: "c # cs = pre @ k @ post" by blast
    show "str_includes (c # cs) k"
    proof (cases pre)
      case Nil
      then have "startsWith (c # cs) k" using e by (auto simp add: startsWith_iff)
      then show ?thesis by simp
    next
      case (Cons p ps)
      then have "cs = ps @ k @ post" using e by simp
      then have "str_includes cs k" using Cons.IH by blast
      then show ?thesis by simp
    qed
  qed
qed

lemma matchesKeyword_iff:
  "matchesKeyword l kws \<longleftrightarrow> (\<exists>k \<in> set kws. str_includes l k)"
  by (induction kws) auto

lemma scanCategories_find:
  "scanCategories l cats =
     (case find (\<lambda>(cat, kws). cat \<noteq> ''Overig'' \<and> matchesKeyword l kws) cats of
        None \<Rightarrow> ''Overig''
      | Some (cat, kws) \<Rightarrow> cat)"
  by (induction l cats rule: scanCategories.induct) simp_all

lemma overig_has_no_keywords:
  "(cat, kws) \<in> set ingredientCategories \<Longrightarrow> cat = ''Overig'' \<Longrightarrow> kws = []"
  by (auto simp add: ingredientCategories_def)

lemma find_cong_set: "(\<And>x. x \<in> set xs \<Longrightarrow> P x = Q x) \<Longrightarrow> find P xs = find Q xs"
  by (induction xs) auto

lemma scanCategories_in:
  "scanCategories l cats \<in> insert ''Overig'' (fst ` set cats)"
  by (induction l cats rule: scanCategories.induct) auto

text \<open>
  C7. \<open>categorizeIngredient\<close> returns one of the nine category names: the name of the
  first category, in the fixed order, one of whose keywords occurs as a substring of the
  lower-cased original name, and \<open>Overig\<close> when there is none. The four example names
  fall into the stated categories.
\<close>

theorem categorizeIngredient_first_match:
  "categorizeIngredient name \<in> set (map fst ingredientCategories)
   \<and> length (map fst ingredientCategories) = 9
   \<and> categorizeIngredient name =
       (case find (\<lambda>(cat, keywords). \<exists>k \<in> set keywords. \<exists>pre post. toLowerCase name = pre @ k @ post)
                  ingredientCategories of
          None \<Rightarrow> ''Overig''
        | Some (cat, keywords) \<Rightarrow> cat)
   \<and> categorizeIngredient ''300 g kipfilet'' = ''Vlees & Vis''
   \<and> categorizeIngredient ''1 ui'' = ''Groente & Fruit''
   \<and> categorizeIngredient ''zout naar smaak'' = ''Kruiden & Specerijen''
   \<and> categorizeIngredient ''xyz-ingredient'' = ''Overig''"
proof -
  have ov: "''Overig'' \<in> fst ` set ingredientCategories"
    by (simp add: ingredientCategories_def)
  have 1: "categorizeIngredient name \<in> set (map fst ingredientCategories)"
    using scanCategories_in [of "toLowerCase name" ingredientCategories]
    unfolding categorizeIngredient_def set_map insert_absorb [OF ov] .
  have 2: "length (map fst ingredientCategories) = 9"
    by (simp add: ingredientCategories_def)
  have "find (\<lambda>(cat, kws). cat \<noteq> ''Overig'' \<and> matchesKeyword (toLowerCase name) kws) ingredientCategories
      = find (\<lambda>(cat, keywords). \<exists>k \<in> set keywords. \<exists>pre post. toLowerCase name = pre @ k @ post)
             ingredientCategories"
  proof (rule find_cong_set)
    fix x assume x: "x \<in> set ingredientCategories"
    obtain cat kws where c: "x = (cat, kws)" by (cases x)
    show "(case x of (cat, kws) \<Rightarrow> cat \<noteq> ''Overig'' \<and> matchesKeyword (toLowerCase name) kws)
        = (case x of (cat, keywords) \<Rightarrow> \<exists>k \<in> set keywords. \<exists>pre post. toLowerCase name = pre @ k @ post)"
      using overig_has_no_keywords [of cat kws] x c
      by (auto simp add: matchesKeyword_iff str_includes_iff)
  qed
  then have 3: "categorizeIngredient name =
       (case find (\<lambda>(cat, keywords). \<exists>k \<in> set keywords. \<exists>pre post. toLowerCase name = pre @ k @ post)
                  ingredientCategories of
          None \<Rightarrow> ''Overig''
        | Some (cat, keywords) \<Rightarrow> cat)"
    by (simp add: categorizeIngredient_def scanCategories_find)
  have 4: "categorizeIngredient ''300 g kipfilet'' = ''Vlees & Vis''" by code_simp
  have 5: "categorizeIngredient ''1 ui'' = ''Groente & Fruit''" by code_simp
  have 6: "categorizeIngredient ''zout naar smaak'' = ''Kruiden & Specerijen''" by code_simp
  have 7: "categorizeIngredient ''xyz-ingredient'' = ''Overig''" by code_simp
  show ?thesis using 1 2 3 4 5 6 7 by (intro conjI)
qed

theorem categorizeIngredient_first_match_witness:
  "categorizeIngredient ''Kipfilet'' \<in> set (map fst ingredientCategories)
   \<and> categorizeIngredient ''Kipfilet'' = ''Vlees & Vis''"
proof -
  have e: "categorizeIngredient ''Kipfilet'' = ''Vlees & Vis''" by code_simp
  have m: "categorizeIngredient ''Kipfilet'' \<in> set (map fst ingredientCategories)"
    using categorizeIngredient_first_match [of "''Kipfilet''"] by (rule conjunct1)
  show ?thesis using m e by (rule conjI)
qed

section \<open>Properties of the merge\<close>

subsection \<open>Normalised names\<close>











lemma unwords_Cons: "ws \<noteq> [] \<Longrightarrow> unwords (w # ws) = w @ CHR '' '' # unwords ws"
  by (cases ws) simp_all

















subsection \<open>Units\<close>




subsection \<open>The two loops\<close>


lemma set_firstKeys [simp]: "set (firstKeys ings) = normName ` set ings"
  by (simp add: firstKeys_def)

lemma distinct_firstKeys [simp]: "distinct (firstKeys ings)"
  by (simp add: firstKeys_def)

lemma keys_mergedOf [simp]: "fst ` set (mergedOf ings) = normName ` set ings"
  by (simp add: mergedOf_def image_image)






















subsection \<open>The merged list\<close>












section \<open>Properties of the week plan\<close>

lemma assignedIds_snoc:
  "assignedIds (result @ [out]) =
     assignedIds result \<union> (case day_recipe out of None \<Rightarrow> {} | Some r \<Rightarrow> {ref_id r})"
  by (auto simp add: assignedIds_def split: option.splits)

lemma find_recipe_id: "find (\<lambda>r. recipe_id r = rid) rs = Some r \<Longrightarrow> recipe_id r = rid"
  by (auto simp add: find_Some_iff)

lemma sort_key_Nil_iff: "sort_key k ys = [] \<longleftrightarrow> ys = []"
proof
  assume "sort_key k ys = []"
  then have "length (sort_key k ys) = 0" by simp
  then show "ys = []" by (simp only: length_sort length_0_conv)
qed simp

lemma sort_key_hd_mem: "sort_key k ys = p # rest \<Longrightarrow> p \<in> set ys"
proof -
  assume "sort_key k ys = p # rest"
  then have "p \<in> set (sort_key k ys)" by simp
  then show ?thesis by (simp only: set_sort)
qed

lemma scored_mem:
  "(r, sc) \<in> set (map (\<lambda>(k, recipe). (recipe, g k recipe)) (enumerate 0 xs)) \<Longrightarrow> r \<in> set xs"
  by (auto simp add: in_set_enumerate_eq)

lemma topOf_None:
  assumes "topOf env allRecipes cs i day used = None"
  shows "\<forall>r \<in> set allRecipes. recipe_id r \<in> set used"
proof -
  let ?avail = "filter (\<lambda>r. recipe_id r \<notin> set used) allRecipes"
  let ?scored = "map (\<lambda>(k, recipe). (recipe, dayScore env cs day i k recipe)) (enumerate 0 ?avail)"
  have "sort_key (\<lambda>(recipe, score). - score) ?scored = []"
    using assms unfolding topOf_def by (simp split: list.splits prod.splits)
  then have "?scored = []" by (simp only: sort_key_Nil_iff)
  then have "length (enumerate 0 ?avail) = 0" by simp
  then have "?avail = []" by (simp only: length_enumerate length_0_conv)
  then show ?thesis by (simp add: filter_empty_conv)
qed

lemma topOf_Some:
  assumes "topOf env allRecipes cs i day used = Some r"
  shows "r \<in> set allRecipes \<and> recipe_id r \<notin> set used"
proof -
  let ?avail = "filter (\<lambda>r. recipe_id r \<notin> set used) allRecipes"
  let ?scored = "map (\<lambda>(k, recipe). (recipe, dayScore env cs day i k recipe)) (enumerate 0 ?avail)"
  obtain sc rest where "sort_key (\<lambda>(recipe, score). - score) ?scored = (r, sc) # rest"
    using assms unfolding topOf_def by (simp split: list.splits prod.splits)
  then have "(r, sc) \<in> set ?scored" by (rule sort_key_hd_mem)
  then have "r \<in> set ?avail" by (rule scored_mem)
  then show ?thesis by simp
qed

lemma generateDay_top:
  "generateDay env allRecipes cs i day (result, used, db) =
     (case topOf env allRecipes cs i day used of
        None \<Rightarrow>
          (result @ [\<lparr> day_date = fc_date day, day_temp = fc_temp day, day_icon = fc_icon day,
                       day_description = fc_description day, day_status = None,
                       day_recipe = None \<rparr>], used, db)
      | Some r \<Rightarrow>
          (result @ [\<lparr> day_date = fc_date day, day_temp = fc_temp day, day_icon = fc_icon day,
                       day_description = fc_description day, day_status = None,
                       day_recipe = Some (refOf r) \<rparr>], used @ [recipe_id r],
           insertWeekPlan db day (recipe_id r) (now env)))"
  unfolding generateDay_def topOf_def Let_def
  by (simp split: list.splits prod.splits)

lemma find_wp_None: "find (\<lambda>p. wp_date p = d) ps = None \<longleftrightarrow> d \<notin> wp_date ` set ps"
  by (auto simp add: find_None_iff)

lemma insertWeekPlan_dates:
  "wp_date ` set (weekPlan (insertWeekPlan db day rid t))
     \<subseteq> insert (fc_date day) (wp_date ` set (weekPlan db))"
  by (auto simp add: insertWeekPlan_def)

lemma ref_id_refOf [simp]: "ref_id (refOf r) = recipe_id r"
  by (simp add: refOf_def)

lemma storedOrGenerated_shape:
  "\<exists>out used' db'.
     storedOrGenerated env allRecipes cs i day (result, used, db) = (result @ [out], used', db')
     \<and> day_date out = fc_date day
     \<and> (case day_recipe out of
           None \<Rightarrow> used' = used \<or> (\<exists>x. used' = used @ [x])
         | Some r \<Rightarrow> used' = used @ [ref_id r])
     \<and> wp_date ` set (weekPlan db') \<subseteq> insert (fc_date day) (wp_date ` set (weekPlan db))
     \<and> (fc_date day \<notin> wp_date ` set (weekPlan db) \<longrightarrow>
          (case day_recipe out of
             None \<Rightarrow> (\<forall>r \<in> set allRecipes. recipe_id r \<in> set used)
           | Some r \<Rightarrow> ref_id r \<notin> set used))"
proof (cases "find (\<lambda>p. wp_date p = fc_date day) (weekPlan db)")
  case None
  show ?thesis
  proof (cases "topOf env allRecipes cs i day used")
    case n: None
    show ?thesis
      using None n topOf_None [OF n]
      by (auto simp add: storedOrGenerated_def generateDay_top)
  next
    case s: (Some r)
    show ?thesis
      using None s topOf_Some [OF s] insertWeekPlan_dates [of db day "recipe_id r" "now env"]
      by (auto simp add: storedOrGenerated_def generateDay_top)
  qed
next
  case (Some stored)
  then have here: "fc_date day \<in> wp_date ` set (weekPlan db)"
    using find_wp_None [of "fc_date day" "weekPlan db"] by simp
  show ?thesis
  proof (cases "wp_cleared stored")
    case True
    then show ?thesis using Some here by (auto simp add: storedOrGenerated_def)
  next
    case False
    show ?thesis
    proof (cases "wp_recipeId stored")
      case None
      then show ?thesis using Some here False by (auto simp add: storedOrGenerated_def)
    next
      case rid: (Some rid)
      show ?thesis
      proof (cases "rid \<noteq> 0")
        case False
        then show ?thesis using Some here rid \<open>\<not> wp_cleared stored\<close>
          by (auto simp add: storedOrGenerated_def)
      next
        case True
        show ?thesis
        proof (cases "find (\<lambda>r. recipe_id r = rid) allRecipes")
          case None
          then show ?thesis using Some here rid True \<open>\<not> wp_cleared stored\<close>
            by (auto simp add: storedOrGenerated_def)
        next
          case f: (Some r)
          then show ?thesis
            using Some here rid True \<open>\<not> wp_cleared stored\<close> find_recipe_id [OF f]
            by (auto simp add: storedOrGenerated_def)
        qed
      qed
    qed
  qed
qed

lemma resolveDay_shape:
  "\<exists>out used' db'.
     resolveDay env allRecipes cs ts i day (result, used, db) = (result @ [out], used', db')
     \<and> day_date out = fc_date day
     \<and> (case day_recipe out of
           None \<Rightarrow> used' = used \<or> (\<exists>x. used' = used @ [x])
         | Some r \<Rightarrow> used' = used @ [ref_id r])
     \<and> wp_date ` set (weekPlan db') \<subseteq> insert (fc_date day) (wp_date ` set (weekPlan db))
     \<and> (\<not> suggestionDecides env allRecipes ts (fc_date day) \<and> fc_date day \<notin> wp_date ` set (weekPlan db) \<longrightarrow>
          (case day_recipe out of
             None \<Rightarrow> (\<forall>r \<in> set allRecipes. recipe_id r \<in> set used)
           | Some r \<Rightarrow> ref_id r \<notin> set used))"
proof (cases "fc_date day = today env \<and> length ts > 0")
  case False
  then have "resolveDay env allRecipes cs ts i day (result, used, db)
           = storedOrGenerated env allRecipes cs i day (result, used, db)"
    by (auto simp add: resolveDay_def)
  then show ?thesis
    using storedOrGenerated_shape [of env allRecipes cs i day result used db] by auto
next
  case True
  show ?thesis
  proof (cases "status (hd ts) = Cleared")
    case c: True
    then show ?thesis using True by (auto simp add: resolveDay_def suggestionDecides_def)
  next
    case c: False
    show ?thesis
    proof (cases "find (\<lambda>r. recipe_id r = sug_recipeId (hd ts)) allRecipes")
      case None
      then have "resolveDay env allRecipes cs ts i day (result, used, db)
           = storedOrGenerated env allRecipes cs i day (result, used, db)"
        using True c by (simp add: resolveDay_def)
      then show ?thesis
        using storedOrGenerated_shape [of env allRecipes cs i day result used db] by auto
    next
      case (Some r)
      then show ?thesis using True c
        by (auto simp add: resolveDay_def suggestionDecides_def)
    qed
  qed
qed

lemma card_ids_le:
  assumes "\<forall>r \<in> set allRecipes. recipe_id r \<in> set used"
  shows "card (recipe_id ` set allRecipes) \<le> length used"
proof -
  have "recipe_id ` set allRecipes \<subseteq> set used" using assms by auto
  then have "card (recipe_id ` set allRecipes) \<le> card (set used)"
    by (simp add: card_mono)
  also have "\<dots> \<le> length used" by (rule card_length)
  finally show ?thesis .
qed

lemma resolveDays_generated:
  assumes "assignedIds result \<subseteq> set used"
    and "length used \<le> length result"
    and "distinct (map fc_date days)"
  shows "\<exists>outs used' db'.
     resolveDays env allRecipes cs ts i days (result, used, db) = (result @ outs, used', db')
     \<and> length outs = length days
     \<and> (\<forall>k < length days. day_date (outs ! k) = fc_date (days ! k))
     \<and> (\<forall>k < length days.
          \<not> suggestionDecides env allRecipes ts (fc_date (days ! k))
          \<and> fc_date (days ! k) \<notin> wp_date ` set (weekPlan db) \<longrightarrow>
          (case day_recipe (outs ! k) of
             None \<Rightarrow> card (recipe_id ` set allRecipes) \<le> length result + k
           | Some r \<Rightarrow> ref_id r \<notin> assignedIds (result @ take k outs)))"
  using assms
proof (induction days arbitrary: result used db i)
  case Nil
  then show ?case by simp
next
  case (Cons day days)
  from resolveDay_shape [of env allRecipes cs ts i day result used db]
  obtain out used1 db1 where
    step: "resolveDay env allRecipes cs ts i day (result, used, db) = (result @ [out], used1, db1)"
    and date: "day_date out = fc_date day"
    and used1: "case day_recipe out of
           None \<Rightarrow> used1 = used \<or> (\<exists>x. used1 = used @ [x])
         | Some r \<Rightarrow> used1 = used @ [ref_id r]"
    and dates1: "wp_date ` set (weekPlan db1) \<subseteq> insert (fc_date day) (wp_date ` set (weekPlan db))"
    and gen: "\<not> suggestionDecides env allRecipes ts (fc_date day) \<and> fc_date day \<notin> wp_date ` set (weekPlan db) \<longrightarrow>
          (case day_recipe out of
             None \<Rightarrow> (\<forall>r \<in> set allRecipes. recipe_id r \<in> set used)
           | Some r \<Rightarrow> ref_id r \<notin> set used)"
    by blast
  have inv1: "assignedIds (result @ [out]) \<subseteq> set used1"
    using Cons.prems(1) used1 by (auto simp add: assignedIds_snoc split: option.splits)
  have len1: "length used1 \<le> length (result @ [out])"
    using Cons.prems(2) used1 by (auto split: option.splits)
  have dist1: "distinct (map fc_date days)" using Cons.prems(3) by simp
  from Cons.IH [OF inv1 len1 dist1, of "Suc i" db1]
  obtain outs used' db' where
    rest: "resolveDays env allRecipes cs ts (Suc i) days (result @ [out], used1, db1)
             = ((result @ [out]) @ outs, used', db')"
    and lens: "length outs = length days"
    and dts: "\<forall>k < length days. day_date (outs ! k) = fc_date (days ! k)"
    and gens: "\<forall>k < length days.
          \<not> suggestionDecides env allRecipes ts (fc_date (days ! k))
          \<and> fc_date (days ! k) \<notin> wp_date ` set (weekPlan db1) \<longrightarrow>
          (case day_recipe (outs ! k) of
             None \<Rightarrow> card (recipe_id ` set allRecipes) \<le> length (result @ [out]) + k
           | Some r \<Rightarrow> ref_id r \<notin> assignedIds ((result @ [out]) @ take k outs))"
    by blast
  have whole: "resolveDays env allRecipes cs ts i (day # days) (result, used, db)
                = (result @ (out # outs), used', db')"
    using step rest by simp
  have l: "length (out # outs) = length (day # days)" using lens by simp
  have d: "\<forall>k < length (day # days). day_date ((out # outs) ! k) = fc_date ((day # days) ! k)"
  proof (intro allI impI)
    fix k assume "k < length (day # days)"
    then show "day_date ((out # outs) ! k) = fc_date ((day # days) ! k)"
      using date dts by (cases k) simp_all
  qed
  have g: "\<forall>k < length (day # days).
          \<not> suggestionDecides env allRecipes ts (fc_date ((day # days) ! k))
          \<and> fc_date ((day # days) ! k) \<notin> wp_date ` set (weekPlan db) \<longrightarrow>
          (case day_recipe ((out # outs) ! k) of
             None \<Rightarrow> card (recipe_id ` set allRecipes) \<le> length result + k
           | Some r \<Rightarrow> ref_id r \<notin> assignedIds (result @ take k (out # outs)))"
  proof (intro allI impI)
    fix k
    assume k: "k < length (day # days)"
      and c: "\<not> suggestionDecides env allRecipes ts (fc_date ((day # days) ! k))
          \<and> fc_date ((day # days) ! k) \<notin> wp_date ` set (weekPlan db)"
    show "case day_recipe ((out # outs) ! k) of
             None \<Rightarrow> card (recipe_id ` set allRecipes) \<le> length result + k
           | Some r \<Rightarrow> ref_id r \<notin> assignedIds (result @ take k (out # outs))"
    proof (cases k)
      case 0
      show ?thesis
      proof (cases "day_recipe out")
        case None
        then have "\<forall>r \<in> set allRecipes. recipe_id r \<in> set used" using gen c 0 by simp
        then have "card (recipe_id ` set allRecipes) \<le> length used" by (rule card_ids_le)
        then show ?thesis using None 0 Cons.prems(2) by simp
      next
        case (Some r)
        then have "ref_id r \<notin> set used" using gen c 0 by simp
        then have "ref_id r \<notin> assignedIds result" using Cons.prems(1) by blast
        then show ?thesis using Some 0 by simp
      qed
    next
      case (Suc k')
      have k': "k' < length days" using k Suc by simp
      have "days ! k' \<in> set days" using k' by (rule nth_mem)
      then have "fc_date (days ! k') \<in> fc_date ` set days" by (rule imageI)
      then have "fc_date (days ! k') \<noteq> fc_date day"
        using Cons.prems(3) by auto
      then have fresh: "fc_date (days ! k') \<notin> wp_date ` set (weekPlan db1)"
        using dates1 c Suc by auto
      have "\<not> suggestionDecides env allRecipes ts (fc_date (days ! k'))" using c Suc by simp
      then have "case day_recipe (outs ! k') of
             None \<Rightarrow> card (recipe_id ` set allRecipes) \<le> length (result @ [out]) + k'
           | Some r \<Rightarrow> ref_id r \<notin> assignedIds ((result @ [out]) @ take k' outs)"
        using gens k' fresh by blast
      then show ?thesis using Suc by (simp split: option.splits)
    qed
  qed
  show ?case using whole l d g by blast
qed

lemma distinct_allDays:
  "distinct (map fc_date forecast) \<Longrightarrow> distinct (map fc_date (allDays env currentW forecast))"
proof -
  assume d: "distinct (map fc_date forecast)"
  let ?rest = "filter (\<lambda>d. fc_date d \<noteq> today env) forecast"
  let ?t = "\<lparr> fc_date = today env, fc_temp = temp currentW, fc_icon = icon currentW,
               fc_description = description currentW, fc_weatherTags = [] \<rparr>"
  have "distinct (map fc_date ?rest)" using d by (rule distinct_map_filter)
  then have "distinct (map fc_date (?t # ?rest))" by auto
  then have "distinct (take 7 (map fc_date (?t # ?rest)))" by (rule distinct_take)
  then show ?thesis unfolding allDays_def take_map .
qed

lemma length_allDays: "length (allDays env currentW forecast) \<le> 7"
  by (simp add: allDays_def)

lemma not_assigned_before:
  assumes "ref_id r \<notin> assignedIds (take j result)" "i < j" "j < length result"
    "day_recipe (result ! i) = Some r'"
  shows "ref_id r' \<noteq> ref_id r"
proof -
  have "result ! i \<in> set (take j result)"
    using assms(2,3) by (metis length_take min.absorb2 less_imp_le nth_mem nth_take)
  then have "ref_id r' \<in> assignedIds (take j result)"
    using assms(4) by (auto simp add: assignedIds_def)
  then show ?thesis using assms(1) by auto
qed

text \<open>
  C5, as the code has it. With the forecast and the weather fetched and the forecast days
  on distinct dates, the week plan has at most seven days, and a day that is generated
  (today's suggestion does not decide it and no plan is stored for its date) never gets a
  recipe id assigned to an earlier date of the window; when the catalog has at least seven
  distinct recipes such a day always gets a recipe. Days decided by today's suggestion or
  by a stored plan, a manual pick included, are emitted as they are.
\<close>

theorem getWeekPlan_generated_days:
  assumes f: "weekForecast env = Inr forecast"
    and w: "currentWeather env = Inr currentW"
    and d: "distinct (map fc_date forecast)"
  shows "\<exists>result.
     fst (getWeekPlan env db) = Inr result
     \<and> length result \<le> 7
     \<and> map day_date result = map fc_date (allDays env currentW forecast)
     \<and> (\<forall>j < length result.
          \<not> suggestionDecides env (recipes db) (latestSuggestion db (today env)) (day_date (result ! j))
          \<and> day_date (result ! j) \<notin> wp_date ` set (weekPlan db) \<longrightarrow>
            (\<forall>r. day_recipe (result ! j) = Some r \<longrightarrow>
               (\<forall>i < j. \<forall>r'. day_recipe (result ! i) = Some r' \<longrightarrow> ref_id r' \<noteq> ref_id r))
          \<and> (7 \<le> card (recipe_id ` set (recipes db)) \<longrightarrow> day_recipe (result ! j) \<noteq> None))"
proof -
  let ?days = "allDays env currentW forecast"
  let ?ts = "latestSuggestion db (today env)"
  let ?cs = "getCurrentSeason (month env)"
  have i0: "assignedIds [] \<subseteq> set ([] :: nat list)" by (simp add: assignedIds_def)
  have l0: "length ([] :: nat list) \<le> length ([] :: WeekDay list)" by simp
  note dd = distinct_allDays [OF d, of env currentW]
  from resolveDays_generated [where result = "[]" and used = "[]" and days = ?days and env = env
      and allRecipes = "recipes db" and cs = ?cs and ts = ?ts and i = 0 and db = db, OF i0 l0 dd]
  obtain outs used' db' where
    run: "resolveDays env (recipes db) ?cs ?ts 0 ?days ([], [], db) = ([] @ outs, used', db')"
    and len: "length outs = length ?days"
    and dts: "\<forall>k < length ?days. day_date (outs ! k) = fc_date (?days ! k)"
    and gens: "\<forall>k < length ?days.
          \<not> suggestionDecides env (recipes db) ?ts (fc_date (?days ! k))
          \<and> fc_date (?days ! k) \<notin> wp_date ` set (weekPlan db) \<longrightarrow>
          (case day_recipe (outs ! k) of
             None \<Rightarrow> card (recipe_id ` set (recipes db)) \<le> length ([] :: WeekDay list) + k
           | Some r \<Rightarrow> ref_id r \<notin> assignedIds ([] @ take k outs))"
    by blast
  have res: "fst (getWeekPlan env db) = Inr outs"
    using f w run by (simp add: getWeekPlan_def Let_def)
  have l7: "length outs \<le> 7" using len length_allDays [of env currentW forecast] by simp
  have dates: "map day_date outs = map fc_date ?days"
    using len dts by (simp add: list_eq_iff_nth_eq)
  have main: "\<forall>j < length outs.
          \<not> suggestionDecides env (recipes db) ?ts (day_date (outs ! j))
          \<and> day_date (outs ! j) \<notin> wp_date ` set (weekPlan db) \<longrightarrow>
            (\<forall>r. day_recipe (outs ! j) = Some r \<longrightarrow>
               (\<forall>i < j. \<forall>r'. day_recipe (outs ! i) = Some r' \<longrightarrow> ref_id r' \<noteq> ref_id r))
          \<and> (7 \<le> card (recipe_id ` set (recipes db)) \<longrightarrow> day_recipe (outs ! j) \<noteq> None)"
  proof (intro allI impI)
    fix j
    assume j: "j < length outs"
      and c: "\<not> suggestionDecides env (recipes db) ?ts (day_date (outs ! j))
          \<and> day_date (outs ! j) \<notin> wp_date ` set (weekPlan db)"
    have j': "j < length ?days" using j len by simp
    have dj: "day_date (outs ! j) = fc_date (?days ! j)" using dts j' by blast
    have g: "case day_recipe (outs ! j) of
             None \<Rightarrow> card (recipe_id ` set (recipes db)) \<le> length ([] :: WeekDay list) + j
           | Some r \<Rightarrow> ref_id r \<notin> assignedIds ([] @ take j outs)"
      using gens j' c unfolding dj by blast
    show "(\<forall>r. day_recipe (outs ! j) = Some r \<longrightarrow>
               (\<forall>i < j. \<forall>r'. day_recipe (outs ! i) = Some r' \<longrightarrow> ref_id r' \<noteq> ref_id r))
          \<and> (7 \<le> card (recipe_id ` set (recipes db)) \<longrightarrow> day_recipe (outs ! j) \<noteq> None)"
    proof (cases "day_recipe (outs ! j)")
      case None
      then have "card (recipe_id ` set (recipes db)) \<le> j" using g by simp
      then have "card (recipe_id ` set (recipes db)) < 7" using j l7 by simp
      then show ?thesis using None by simp
    next
      case (Some r)
      then have "ref_id r \<notin> assignedIds (take j outs)" using g by simp
      then show ?thesis using Some not_assigned_before [OF _ _ j] by auto
    qed
  qed
  show ?thesis using res l7 dates main by blast
qed

text \<open>
  C5 as stated fails: with seven recipes in the catalog, a manual pick of recipe 1 for two
  dates puts recipe 1 on both dates of the resolved week plan.
\<close>

theorem manual_picks_repeat_counterexample:
  "card (recipe_id ` set (recipes pickedDB)) = 7
   \<and> fst (getWeekPlan weekEnv pickedDB) = Inr pickedPlan
   \<and> day_date (pickedPlan ! 1) \<noteq> day_date (pickedPlan ! 2)
   \<and> map_option ref_id (day_recipe (pickedPlan ! 1)) = Some 1
   \<and> map_option ref_id (day_recipe (pickedPlan ! 2)) = Some 1"
  by code_simp

theorem getWeekPlan_generated_days_witness:
  "weekForecast weekEnv = Inr [dayTwo, dayThree]
   \<and> currentWeather weekEnv = Inr warmDay
   \<and> distinct (map fc_date [dayTwo, dayThree])
   \<and> fst (getWeekPlan weekEnv storedDB) = Inr storedPlan
   \<and> 2 < length storedPlan
   \<and> \<not> suggestionDecides weekEnv (recipes storedDB)
          (latestSuggestion storedDB (today weekEnv)) (day_date (storedPlan ! 2))
   \<and> day_date (storedPlan ! 2) \<notin> wp_date ` set (weekPlan storedDB)
   \<and> 7 \<le> card (recipe_id ` set (recipes storedDB))
   \<and> day_recipe (storedPlan ! 2) \<noteq> None
   \<and> map (map_option ref_id \<circ> day_recipe) storedPlan = [Some 1, Some 1, Some 2]"
proof -
  have f: "weekForecast weekEnv = Inr [dayTwo, dayThree]" by (simp add: weekEnv_def)
  have w: "currentWeather weekEnv = Inr warmDay" by (simp add: weekEnv_def noon_def)
  have d: "distinct (map fc_date [dayTwo, dayThree])" by (simp add: dayTwo_def dayThree_def)
  from getWeekPlan_generated_days [OF f w d, of storedDB]
  obtain result where r: "fst (getWeekPlan weekEnv storedDB) = Inr result"
    and g: "\<forall>j < length result.
          \<not> suggestionDecides weekEnv (recipes storedDB)
              (latestSuggestion storedDB (today weekEnv)) (day_date (result ! j))
          \<and> day_date (result ! j) \<notin> wp_date ` set (weekPlan storedDB) \<longrightarrow>
            (\<forall>r. day_recipe (result ! j) = Some r \<longrightarrow>
               (\<forall>i < j. \<forall>r'. day_recipe (result ! i) = Some r' \<longrightarrow> ref_id r' \<noteq> ref_id r))
          \<and> (7 \<le> card (recipe_id ` set (recipes storedDB)) \<longrightarrow> day_recipe (result ! j) \<noteq> None)"
    by blast
  have v: "fst (getWeekPlan weekEnv storedDB) = Inr storedPlan" by code_simp
  have e: "result = storedPlan" using r v by simp
  have h1: "2 < length storedPlan" by (simp add: storedPlan_def)
  have h2: "\<not> suggestionDecides weekEnv (recipes storedDB)
          (latestSuggestion storedDB (today weekEnv)) (day_date (storedPlan ! 2))"
    by code_simp
  have h3: "day_date (storedPlan ! 2) \<notin> wp_date ` set (weekPlan storedDB)" by code_simp
  have h4: "7 \<le> card (recipe_id ` set (recipes storedDB))" by code_simp
  have c: "(\<forall>r. day_recipe (storedPlan ! 2) = Some r \<longrightarrow>
               (\<forall>i < 2. \<forall>r'. day_recipe (storedPlan ! i) = Some r' \<longrightarrow> ref_id r' \<noteq> ref_id r))
          \<and> (7 \<le> card (recipe_id ` set (recipes storedDB)) \<longrightarrow> day_recipe (storedPlan ! 2) \<noteq> None)"
    using g [unfolded e, rule_format, of 2] h1 h2 h3 by blast
  then have c1: "day_recipe (storedPlan ! 2) \<noteq> None" using h4 by blast
  have c2: "map (map_option ref_id \<circ> day_recipe) storedPlan = [Some 1, Some 1, Some 2]"
    by (simp add: storedPlan_def soepRef_def)
  show ?thesis using f w d v h1 h2 h3 h4 c1 c2 by (intro conjI)
qed

section \<open>Properties of the shopping list\<close>

lemma getShoppingList_state: "snd (getShoppingList addNum env db) = db"
  by (simp add: getShoppingList_def Let_def case_prod_beta)

lemma getShoppingList_today:
  "today env' = today env \<Longrightarrow> fst (getShoppingList addNum env' db) = fst (getShoppingList addNum env db)"
  by (simp add: getShoppingList_def Let_def)

text \<open>
  C10. \<open>GET /api/shopping\<close> leaves the database as it found it, and a second call on
  the same day returns the same response; the week-plan read, on a database with days
  missing from the plan, does store entries.
\<close>

theorem getShoppingList_readonly:
  "snd (getShoppingList addNum env db) = db
   \<and> (today env' = today env \<longrightarrow>
        fst (getShoppingList addNum env' (snd (getShoppingList addNum env db))) = fst (getShoppingList addNum env db))
   \<and> length (weekPlan storedDB) = 1
   \<and> length (weekPlan (snd (getWeekPlan weekEnv storedDB))) = 3
   \<and> length (weekPlan (snd (getShoppingList addNum weekEnv storedDB))) = 1"
proof -
  have 1: "snd (getShoppingList addNum env db) = db" by (rule getShoppingList_state)
  have 2: "today env' = today env \<longrightarrow>
        fst (getShoppingList addNum env' (snd (getShoppingList addNum env db))) = fst (getShoppingList addNum env db)"
  proof
    assume t: "today env' = today env"
    show "fst (getShoppingList addNum env' (snd (getShoppingList addNum env db))) = fst (getShoppingList addNum env db)"
      unfolding getShoppingList_state by (rule getShoppingList_today [OF t])
  qed
  have 3: "length (weekPlan storedDB) = 1" by code_simp
  have 4: "length (weekPlan (snd (getWeekPlan weekEnv storedDB))) = 3" by code_simp
  have 5: "length (weekPlan (snd (getShoppingList addNum weekEnv storedDB))) = 1"
    using 3 by (simp add: getShoppingList_state)
  show ?thesis using 1 2 3 4 5 by (intro conjI)
qed

theorem getShoppingList_readonly_witness:
  "today (noon\<lparr>now := 1000050000\<rparr>) = today noon
   \<and> snd (getShoppingList (+) noon rejectedThenPending) = rejectedThenPending
   \<and> fst (getShoppingList (+) (noon\<lparr>now := 1000050000\<rparr>) (snd (getShoppingList (+) noon rejectedThenPending)))
       = fst (getShoppingList (+) noon rejectedThenPending)
   \<and> map displayName (items (fst (getShoppingList (+) noon rejectedThenPending))) = [''ui'']"
proof -
  have t: "today (noon\<lparr>now := 1000050000\<rparr>) = today noon" by simp
  note r = getShoppingList_readonly [of "(+)" noon rejectedThenPending "noon\<lparr>now := 1000050000\<rparr>"]
  have a: "snd (getShoppingList (+) noon rejectedThenPending) = rejectedThenPending"
    using r by (rule conjunct1)
  have b: "fst (getShoppingList (+) (noon\<lparr>now := 1000050000\<rparr>) (snd (getShoppingList (+) noon rejectedThenPending)))
       = fst (getShoppingList (+) noon rejectedThenPending)"
    using r t by blast
  have c: "map displayName (items (fst (getShoppingList (+) noon rejectedThenPending))) = [''ui'']"
    by code_simp
  show ?thesis using t a b c by (intro conjI)
qed

text \<open>
  C3 on the code. With a rejected first suggestion (recipe 1) and a pending second one
  (recipe 2) for today, \<open>getTodaySuggestion\<close> and the week plan resolve today to recipe 2,
  the most recently created row, while the shopping list takes the recipe of the first
  row created and lists the ingredients of recipe 1.
\<close>

theorem shopping_takes_first_suggestion:
  "map_option (sug_id \<circ> fst) (case fst (getTodaySuggestion noon rejectedThenPending) of
                                   Inl e \<Rightarrow> None | Inr p \<Rightarrow> Some p) = Some 2
   \<and> map_sum id (map (map_option ref_id \<circ> day_recipe)) (fst (getWeekPlan noon rejectedThenPending))
       = Inr [Some 2]
   \<and> map pr_id (planRecipes (fst (getShoppingList addNum noon rejectedThenPending))) = [1]
   \<and> map displayName (items (fst (getShoppingList addNum noon rejectedThenPending))) = [''ui'']"
  by code_simp

end
